theory Spec2Isabelle
  imports Complex_Main "HOL-Library.Sublist" "HOL-Library.Monad_Syntax"
begin

section \<open>Python values used by the program\<close>

text \<open>
  A Python \<open>str\<close> is a sequence of Unicode code points, and \<open>len\<close> counts code points.
  Strings are therefore lists of code points (natural numbers); \<open>str\<close> turns an ASCII
  literal into such a list.
\<close>

type_synonym codepoint = nat
type_synonym pystr = "codepoint list"

definition str :: "string \<Rightarrow> pystr" where
  "str s = map of_char s"

text \<open>
  \<open>str.strip()\<close> removes leading and trailing white space; the test below is Python's
  \<open>str.isspace\<close> on one code point (the code points of bidirectional type WS, B or S and
  of category Zs).
\<close>

definition isspace :: "codepoint \<Rightarrow> bool" where
  "isspace c =
     ((9 \<le> c \<and> c \<le> 13) \<or> (28 \<le> c \<and> c \<le> 32) \<or> c = 133 \<or> c = 160 \<or> c = 5760
      \<or> (8192 \<le> c \<and> c \<le> 8202) \<or> c = 8232 \<or> c = 8233 \<or> c = 8239 \<or> c = 8287
      \<or> c = 12288)"

definition strip :: "pystr \<Rightarrow> pystr" where
  "strip s = rev (dropWhile isspace (rev (dropWhile isspace s)))"

text \<open>
  \<open>str.lower()\<close> and \<open>str.upper()\<close> map every code point to its lower or upper case
  form. The tables below are Python's on ASCII, on U+0130 (capital I with dot above, the
  one code point whose lower case form is two code points: \<open>i\<close> and U+0307), and on the
  uncased U+0307 itself. Python's tables for the other cased code points outside ASCII are
  not reproduced: they are left unchanged here, and every statement below that depends on
  case conversion is made for ASCII strings or for an explicit string.
\<close>

definition lower_cp :: "codepoint \<Rightarrow> pystr" where
  "lower_cp c = (if 65 \<le> c \<and> c \<le> 90 then [c + 32] else if c = 304 then [105, 775] else [c])"

definition upper_cp :: "codepoint \<Rightarrow> pystr" where
  "upper_cp c = (if 97 \<le> c \<and> c \<le> 122 then [c - 32] else [c])"

definition lower :: "pystr \<Rightarrow> pystr" where
  "lower s = concat (map lower_cp s)"

definition upper :: "pystr \<Rightarrow> pystr" where
  "upper s = concat (map upper_cp s)"

definition ascii :: "pystr \<Rightarrow> bool" where
  "ascii s = list_all (\<lambda>c. c < 128) s"

text \<open>The lower case form of an ASCII code point.\<close>

definition lower_ascii :: "codepoint \<Rightarrow> codepoint" where
  "lower_ascii c = (if 65 \<le> c \<and> c \<le> 90 then c + 32 else c)"

text \<open>Truth value of an \<open>Optional[str]\<close>: \<open>None\<close> and the empty string are false.\<close>

definition truthy_str :: "pystr option \<Rightarrow> bool" where
  "truthy_str t = (case t of None \<Rightarrow> False | Some s \<Rightarrow> s \<noteq> [])"

text \<open>
  The slice \<open>xs[:n]\<close>: the first \<open>n\<close> elements, and for a negative \<open>n\<close> all but the
  last \<open>-n\<close>.
\<close>

definition slice_to :: "'a list \<Rightarrow> int \<Rightarrow> 'a list" where
  "slice_to xs n = (if 0 \<le> n then take (nat n) xs else take (length xs - nat (- n)) xs)"

text \<open>A \<open>datetime\<close> is a point on the time line, here its offset from a fixed origin.\<close>

type_synonym datetime = int

section \<open>config.py\<close>

definition TOKEN_ADDRESSES :: "(pystr \<times> pystr) list" where
  "TOKEN_ADDRESSES =
     [(str ''USDC'', str ''0xa0b86991c6218b36c1d19d4a2e9eb0ce3606eb48''),
      (str ''USDT'', str ''0xdac17f958d2ee523a2206206994597c13d831ec7''),
      (str ''DAI'', str ''0x6b175474e89094c44da98b954eedeac495271d0f''),
      (str ''WETH'', str ''0xc02aaa39b223fe8d0a0e5c4f27ead9083c756cc2''),
      (str ''ETH'', str ''0xc02aaa39b223fe8d0a0e5c4f27ead9083c756cc2''),
      (str ''WBTC'', str ''0x2260fac5e5542a773aa44fbcfedf7c193bc2c599'')]"

definition MEMPOOL_QUERY_LIMIT :: int where
  "MEMPOOL_QUERY_LIMIT = 20"

definition SLIPPAGE_QUERY_LIMIT :: int where
  "SLIPPAGE_QUERY_LIMIT = 50"

definition hex_digits :: pystr where
  "hex_digits = str ''0123456789abcdefABCDEF''"

text \<open>
  \<open>token_to_address\<close>: \<open>None\<close> for \<open>None\<close> and for the empty string; otherwise the
  stripped input is returned in lower case when it starts with \<open>0x\<close> and has 42
  characters, prefixed with \<open>0x\<close> when it consists of 40 hexadecimal digits, and looked up
  in upper case in \<open>TOKEN_ADDRESSES\<close> in every other case.
\<close>

definition token_to_address :: "pystr option \<Rightarrow> pystr option" where
  "token_to_address symbol_or_address =
     (case symbol_or_address of
        None \<Rightarrow> None
      | Some t \<Rightarrow>
          if t = [] then None
          else
            let s = strip t in
            if prefix (str ''0x'') s \<and> length s = 42 then Some (lower s)
            else if length s = 40 \<and> list_all (\<lambda>c. c \<in> set hex_digits) s
              then Some (str ''0x'' @ lower s)
            else map_of TOKEN_ADDRESSES (upper s))"

section \<open>The data classes of bitquery\_client.py\<close>

record TokenInfo =
  symbol :: pystr
  name :: pystr
  address :: pystr
  decimals :: int

record PoolSlippageData =
  block_number :: int
  block_time :: datetime
  protocol :: pystr
  protocol_version :: pystr
  pool_address :: pystr
  token_a :: TokenInfo
  token_b :: TokenInfo
  slippage_bps :: int
  price_atob :: real
  price_btoa :: real
  max_amount_in_atob :: real
  min_amount_out_atob :: real
  max_amount_in_btoa :: real
  min_amount_out_btoa :: real

section \<open>calculation.py\<close>

definition is_pool_reversed :: "pystr \<Rightarrow> pystr \<Rightarrow> pystr option \<Rightarrow> pystr option \<Rightarrow> bool" where
  "is_pool_reversed token_a_symbol token_b_symbol request_token_a request_token_b =
     (if \<not> truthy_str request_token_a \<or> \<not> truthy_str request_token_b then False
      else Some token_a_symbol = request_token_b \<and> Some token_b_symbol = request_token_a)"

text \<open>
  One item of the API payload: the dictionary with the keys \<open>bps\<close>, \<open>max_amount\<close>,
  \<open>price\<close>, \<open>price_btoa\<close>, \<open>protocol\<close> and, when \<open>include_tokens\<close> is set, \<open>token_a\<close> and
  \<open>token_b\<close> (\<open>None\<close> stands for a key that is not in the dictionary).
\<close>

record api_item =
  bps :: int
  max_amount :: real
  price :: real
  item_price_btoa :: real
  item_protocol :: pystr
  item_token_a :: "pystr option"
  item_token_b :: "pystr option"

text \<open>The body of the loop of \<open>transform_slippage_for_api\<close> for a point that is kept.\<close>

definition api_item_of :: "pystr option \<Rightarrow> pystr option \<Rightarrow> bool \<Rightarrow> PoolSlippageData \<Rightarrow> api_item" where
  "api_item_of token_a' token_b' include_tokens s =
     (let pool_reversed =
            is_pool_reversed (symbol (token_a s)) (symbol (token_b s)) token_a' token_b';
          price_b_per_a =
            (if pool_reversed
             then (if price_btoa s \<noteq> 0 \<and> price_btoa s > 0 then price_btoa s else 0)
             else (if price_atob s \<noteq> 0 \<and> price_atob s > 0 then price_atob s else 0));
          max_amount' =
            (if pool_reversed then max_amount_in_btoa s else max_amount_in_atob s)
      in \<lparr> bps = slippage_bps s,
           max_amount = max_amount',
           price = price_b_per_a,
           item_price_btoa = price_btoa s,
           item_protocol = protocol s @ str '' v'' @ protocol_version s,
           item_token_a = (if include_tokens then Some (symbol (token_a s)) else None),
           item_token_b = (if include_tokens then Some (symbol (token_b s)) else None) \<rparr>)"

text \<open>
  The loop over the sorted points, with the set \<open>seen_bps\<close> of the tiers already emitted.
\<close>

fun slippage_loop ::
  "pystr option \<Rightarrow> pystr option \<Rightarrow> bool \<Rightarrow> int set \<Rightarrow> PoolSlippageData list \<Rightarrow> api_item list" where
  "slippage_loop ta tb inc seen_bps [] = []"
| "slippage_loop ta tb inc seen_bps (s # rest) =
     (if slippage_bps s \<in> seen_bps then slippage_loop ta tb inc seen_bps rest
      else api_item_of ta tb inc s
             # slippage_loop ta tb inc (insert (slippage_bps s) seen_bps) rest)"

text \<open>Python's \<open>sorted\<close> with a key is a stable sort, as \<open>sort_key\<close> is.\<close>

definition transform_slippage_for_api ::
  "PoolSlippageData list \<Rightarrow> pystr option \<Rightarrow> pystr option \<Rightarrow> bool \<Rightarrow> api_item list" where
  "transform_slippage_for_api slippage_data token_a' token_b' include_tokens =
     slippage_loop token_a' token_b' include_tokens {} (sort_key slippage_bps slippage_data)"

text \<open>
  The points the loop keeps, that is, those for which it appends an item: the same
  traversal as \<open>slippage_loop\<close>, collecting the point instead of its item.
\<close>

fun kept_points :: "int set \<Rightarrow> PoolSlippageData list \<Rightarrow> PoolSlippageData list" where
  "kept_points seen_bps [] = []"
| "kept_points seen_bps (s # rest) =
     (if slippage_bps s \<in> seen_bps then kept_points seen_bps rest
      else s # kept_points (insert (slippage_bps s) seen_bps) rest)"

subsection \<open>Sample data\<close>

text \<open>Points and tokens with given symbols, tier, prices and amounts, for the examples.\<close>

definition example_token :: "pystr \<Rightarrow> TokenInfo" where
  "example_token sy = \<lparr> symbol = sy, name = sy, address = [], decimals = 18 \<rparr>"

definition example_point :: "pystr \<Rightarrow> pystr \<Rightarrow> pystr \<Rightarrow> int \<Rightarrow> real \<Rightarrow> real \<Rightarrow> real \<Rightarrow> real \<Rightarrow> PoolSlippageData" where
  "example_point proto sy_a sy_b tier p_atob p_btoa max_atob max_btoa =
     \<lparr> block_number = 19842771, block_time = 0, protocol = proto, protocol_version = str ''3'',
       pool_address = [], token_a = example_token sy_a, token_b = example_token sy_b,
       slippage_bps = tier, price_atob = p_atob, price_btoa = p_btoa,
       max_amount_in_atob = max_atob, min_amount_out_atob = 0,
       max_amount_in_btoa = max_btoa, min_amount_out_btoa = 0 \<rparr>"

section \<open>bitquery\_client.py: the rows of the provider\<close>

text \<open>
  The provider answers with JSON objects, which the client reads with \<open>dict.get\<close>. An
  entry of such an object is absent, \<open>null\<close> or a value; \<open>get\<close> is \<open>d.get(k)\<close> and
  \<open>get_or\<close> is \<open>d.get(k, default)\<close>, both with \<open>None\<close> for Python's \<open>None\<close>.
\<close>

datatype 'a entry = Absent | Null | Val 'a

definition get :: "'a entry \<Rightarrow> 'a option" where
  "get e = (case e of Absent \<Rightarrow> None | Null \<Rightarrow> None | Val v \<Rightarrow> Some v)"

definition get_or :: "'a entry \<Rightarrow> 'a \<Rightarrow> 'a option" where
  "get_or e d = (case e of Absent \<Rightarrow> Some d | Null \<Rightarrow> None | Val v \<Rightarrow> Some v)"

text \<open>
  A leaf that the client stores without converting it is typed as the data class field it
  fills, and is absent or present: \<open>key_or\<close> is \<open>d.get(k, default)\<close> for such a leaf.
\<close>

definition key_or :: "'a option \<Rightarrow> 'a \<Rightarrow> 'a" where
  "key_or e d = (case e of None \<Rightarrow> d | Some v \<Rightarrow> v)"

text \<open>
  A leaf that the client converts with \<open>int\<close> or \<open>float\<close> is a JSON number or a string.
  The conversions of strings are Python's own and are parameters of the model, as is
  \<open>datetime.fromisoformat\<close>; they return \<open>None\<close> where Python raises \<open>ValueError\<close>.
  Numbers are reals: the rounding of a double and its infinite values are not modelled.
\<close>

datatype scalar = SInt int | SFloat real | SStr pystr

record builtins =
  int_of_str :: "pystr \<Rightarrow> int option"
  float_of_str :: "pystr \<Rightarrow> real option"
  fromisoformat :: "pystr \<Rightarrow> datetime option"

definition truthy_scalar :: "scalar \<Rightarrow> bool" where
  "truthy_scalar v = (case v of SInt n \<Rightarrow> n \<noteq> 0 | SFloat r \<Rightarrow> r \<noteq> 0 | SStr s \<Rightarrow> s \<noteq> [])"

definition py_int :: "builtins \<Rightarrow> scalar \<Rightarrow> int option" where
  "py_int b v =
     (case v of
        SInt n \<Rightarrow> Some n
      | SFloat r \<Rightarrow> Some (if 0 \<le> r then \<lfloor>r\<rfloor> else \<lceil>r\<rceil>)
      | SStr s \<Rightarrow> int_of_str b s)"

text \<open>
  \<open>float(v)\<close>. An \<open>int\<close> beyond the range of a double raises \<open>OverflowError\<close>: the
  conversion rounds to the nearest double, and the largest double is
  \<open>2 ^ 1024 - 2 ^ 971\<close>, so it overflows from \<open>2 ^ 1024 - 2 ^ 970\<close> on. A string that is
  not a number raises \<open>ValueError\<close>.
\<close>

datatype conversion_error = ValueError | OverflowError

definition float_overflows :: "int \<Rightarrow> bool" where
  "float_overflows n = (\<bar>n\<bar> \<ge> 2 ^ 1024 - 2 ^ 970)"

definition py_float :: "builtins \<Rightarrow> scalar \<Rightarrow> conversion_error + real" where
  "py_float b v =
     (case v of
        SInt n \<Rightarrow> if float_overflows n then Inl OverflowError else Inr (real_of_int n)
      | SFloat r \<Rightarrow> Inr r
      | SStr s \<Rightarrow> (case float_of_str b s of None \<Rightarrow> Inl ValueError | Some r \<Rightarrow> Inr r))"

text \<open>
  \<open>safe_float\<close> returns the default for \<open>None\<close> and where \<open>float\<close> raises \<open>ValueError\<close>
  (or \<open>TypeError\<close>); it does not catch \<open>OverflowError\<close>, for which the result here is
  \<open>None\<close>.
\<close>

definition safe_float :: "builtins \<Rightarrow> scalar option \<Rightarrow> real \<Rightarrow> real option" where
  "safe_float b val dflt =
     (case val of
        None \<Rightarrow> Some dflt
      | Some v \<Rightarrow>
          (case py_float b v of
             Inr r \<Rightarrow> Some r
           | Inl ValueError \<Rightarrow> Some dflt
           | Inl OverflowError \<Rightarrow> None))"

definition safe_str :: "pystr option \<Rightarrow> pystr \<Rightarrow> pystr" where
  "safe_str val dflt = (case val of None \<Rightarrow> dflt | Some s \<Rightarrow> s)"

text \<open>\<open>s.replace('Z', '+00:00')\<close>; the code point of \<open>Z\<close> is 90.\<close>

definition replace_Z :: "pystr \<Rightarrow> pystr" where
  "replace_Z s = concat (map (\<lambda>c. if c = 90 then str ''+00:00'' else [c]) s)"

subsection \<open>Rows of DEXPoolSlippages\<close>

record raw_block =
  blk_Time :: "pystr entry"
  blk_Number :: "scalar entry"

record raw_direction =
  dir_Price :: "real option"
  dir_MinAmountOut :: "real option"
  dir_MaxAmountIn :: "real option"

record raw_pool_currency =
  cur_Symbol :: "pystr option"
  cur_SmartContract :: "pystr option"
  cur_Name :: "pystr option"
  cur_Decimals :: "int option"

record raw_pool =
  pool_SmartContract :: "pystr option"
  pool_CurrencyB :: "raw_pool_currency entry"
  pool_CurrencyA :: "raw_pool_currency entry"

record raw_dex =
  dex_ProtocolVersion :: "pystr option"
  dex_ProtocolName :: "pystr option"

record raw_price =
  pr_BtoA :: "raw_direction entry"
  pr_AtoB :: "raw_direction entry"
  pr_Pool :: "raw_pool entry"
  pr_Dex :: "raw_dex entry"
  pr_SlippageBasisPoints :: "int option"

record raw_slippage =
  sl_Price :: "raw_price entry"
  sl_Block :: "raw_block entry"

text \<open>The empty dictionary \<open>{}\<close> at each of these types.\<close>

definition empty_block :: raw_block where
  "empty_block = \<lparr> blk_Time = Absent, blk_Number = Absent \<rparr>"

definition empty_direction :: raw_direction where
  "empty_direction = \<lparr> dir_Price = None, dir_MinAmountOut = None, dir_MaxAmountIn = None \<rparr>"

definition empty_pool_currency :: raw_pool_currency where
  "empty_pool_currency =
     \<lparr> cur_Symbol = None, cur_SmartContract = None, cur_Name = None, cur_Decimals = None \<rparr>"

definition empty_pool :: raw_pool where
  "empty_pool = \<lparr> pool_SmartContract = None, pool_CurrencyB = Absent, pool_CurrencyA = Absent \<rparr>"

definition empty_dex :: raw_dex where
  "empty_dex = \<lparr> dex_ProtocolVersion = None, dex_ProtocolName = None \<rparr>"

definition empty_price :: raw_price where
  "empty_price =
     \<lparr> pr_BtoA = Absent, pr_AtoB = Absent, pr_Pool = Absent, pr_Dex = Absent,
       pr_SlippageBasisPoints = None \<rparr>"

text \<open>
  \<open>datetime.fromisoformat(block.get('Time', '').replace('Z', '+00:00')) if block.get('Time')
  else datetime.now()\<close>, with \<open>None\<close> for the \<open>ValueError\<close> of \<open>fromisoformat\<close>.
\<close>

definition block_time_of :: "builtins \<Rightarrow> datetime \<Rightarrow> raw_block \<Rightarrow> datetime option" where
  "block_time_of b now block =
     (case get (blk_Time block) of
        None \<Rightarrow> Some now
      | Some s \<Rightarrow> if s \<noteq> [] then fromisoformat b (replace_Z s) else Some now)"

text \<open>
  The body of the loop of \<open>_transform_slippage_data\<close>. Every exception is caught and the
  row skipped, so the result is \<open>None\<close> as soon as a step raises: \<open>.get\<close> on \<open>None\<close> where
  a nested object is \<open>null\<close>, \<open>int(None)\<close>, and the errors of \<open>int\<close> and \<open>fromisoformat\<close>.
\<close>

definition transform_slippage_item :: "builtins \<Rightarrow> datetime \<Rightarrow> raw_slippage \<Rightarrow> PoolSlippageData option" where
  "transform_slippage_item b now item =
     do {
       block \<leftarrow> get_or (sl_Block item) empty_block;
       price' \<leftarrow> get_or (sl_Price item) empty_price;
       pool \<leftarrow> get_or (pr_Pool price') empty_pool;
       dex \<leftarrow> get_or (pr_Dex price') empty_dex;
       atob \<leftarrow> get_or (pr_AtoB price') empty_direction;
       btoa \<leftarrow> get_or (pr_BtoA price') empty_direction;
       currency_a \<leftarrow> get_or (pool_CurrencyA pool) empty_pool_currency;
       currency_b \<leftarrow> get_or (pool_CurrencyB pool) empty_pool_currency;
       number \<leftarrow> get_or (blk_Number block) (SInt 0);
       block_number' \<leftarrow> py_int b number;
       block_time' \<leftarrow> block_time_of b now block;
       Some \<lparr> block_number = block_number',
              block_time = block_time',
              protocol = key_or (dex_ProtocolName dex) (str ''Unknown''),
              protocol_version = key_or (dex_ProtocolVersion dex) [],
              pool_address = key_or (pool_SmartContract pool) [],
              token_a = \<lparr> symbol = key_or (cur_Symbol currency_a) [],
                          name = key_or (cur_Name currency_a) [],
                          address = key_or (cur_SmartContract currency_a) [],
                          decimals = key_or (cur_Decimals currency_a) 18 \<rparr>,
              token_b = \<lparr> symbol = key_or (cur_Symbol currency_b) [],
                          name = key_or (cur_Name currency_b) [],
                          address = key_or (cur_SmartContract currency_b) [],
                          decimals = key_or (cur_Decimals currency_b) 18 \<rparr>,
              slippage_bps = key_or (pr_SlippageBasisPoints price') 0,
              price_atob = key_or (dir_Price atob) 0,
              price_btoa = key_or (dir_Price btoa) 0,
              max_amount_in_atob = key_or (dir_MaxAmountIn atob) 0,
              min_amount_out_atob = key_or (dir_MinAmountOut atob) 0,
              max_amount_in_btoa = key_or (dir_MaxAmountIn btoa) 0,
              min_amount_out_btoa = key_or (dir_MinAmountOut btoa) 0 \<rparr>
     }"

definition transform_slippage_data :: "builtins \<Rightarrow> datetime \<Rightarrow> raw_slippage list \<Rightarrow> PoolSlippageData list" where
  "transform_slippage_data b now raw_data = List.map_filter (transform_slippage_item b now) raw_data"

subsection \<open>Rows of the mempool DEXTradeByTokens\<close>

text \<open>
  The fields of \<open>MempoolTradeData\<close> that share a name with a field of
  \<open>PoolSlippageData\<close> or of an API item carry the prefix \<open>trade_\<close>.
\<close>

record MempoolTradeData =
  tx_hash :: pystr
  trade_block_number :: int
  trade_block_time :: datetime
  from_address :: pystr
  to_address :: pystr
  trade_protocol :: pystr
  protocol_family :: pystr
  trade_token :: TokenInfo
  side_token :: TokenInfo
  trade_amount :: real
  trade_amount_usd :: real
  side_amount :: real
  side_amount_usd :: real
  trade_price :: real
  price_usd :: real
  gas_fee :: real
  gas_fee_usd :: real
  priority_fee :: real
  priority_fee_usd :: real
  success :: bool
  buyer :: pystr
  seller :: pystr
  sender :: pystr

record raw_fee =
  fee_PriorityFeePerGas :: "scalar entry"
  fee_PriorityFeePerGasInUSD :: "scalar entry"
  fee_SenderFee :: "scalar entry"
  fee_SenderFeeInUSD :: "scalar entry"

record raw_trade_currency =
  tc_Name :: "pystr entry"
  tc_Symbol :: "pystr entry"
  tc_SmartContract :: "pystr entry"

record raw_trade_dex =
  td_ProtocolName :: "pystr entry"
  td_ProtocolFamily :: "pystr entry"

record raw_side =
  side_Amount :: "scalar entry"
  side_AmountInUSD :: "scalar entry"
  side_Currency :: "raw_trade_currency entry"

record raw_trade =
  tr_Amount :: "scalar entry"
  tr_AmountInUSD :: "scalar entry"
  tr_Buyer :: "pystr entry"
  tr_Price :: "scalar entry"
  tr_PriceInUSD :: "scalar entry"
  tr_Seller :: "pystr entry"
  tr_Sender :: "pystr entry"
  tr_Success :: "bool entry"
  tr_Dex :: "raw_trade_dex entry"
  tr_Currency :: "raw_trade_currency entry"
  tr_Side :: "raw_side entry"

record raw_transaction =
  tx_Hash :: "pystr entry"
  tx_From :: "pystr entry"
  tx_To :: "pystr entry"

record raw_mempool =
  mp_Block :: "raw_block entry"
  mp_Fee :: "raw_fee entry"
  mp_Trade :: "raw_trade entry"
  mp_Transaction :: "raw_transaction entry"

definition empty_fee :: raw_fee where
  "empty_fee =
     \<lparr> fee_PriorityFeePerGas = Absent, fee_PriorityFeePerGasInUSD = Absent,
       fee_SenderFee = Absent, fee_SenderFeeInUSD = Absent \<rparr>"

definition empty_trade_currency :: raw_trade_currency where
  "empty_trade_currency = \<lparr> tc_Name = Absent, tc_Symbol = Absent, tc_SmartContract = Absent \<rparr>"

definition empty_trade_dex :: raw_trade_dex where
  "empty_trade_dex = \<lparr> td_ProtocolName = Absent, td_ProtocolFamily = Absent \<rparr>"

definition empty_side :: raw_side where
  "empty_side = \<lparr> side_Amount = Absent, side_AmountInUSD = Absent, side_Currency = Absent \<rparr>"

definition empty_trade :: raw_trade where
  "empty_trade =
     \<lparr> tr_Amount = Absent, tr_AmountInUSD = Absent, tr_Buyer = Absent, tr_Price = Absent,
       tr_PriceInUSD = Absent, tr_Seller = Absent, tr_Sender = Absent, tr_Success = Absent,
       tr_Dex = Absent, tr_Currency = Absent, tr_Side = Absent \<rparr>"

definition empty_transaction :: raw_transaction where
  "empty_transaction = \<lparr> tx_Hash = Absent, tx_From = Absent, tx_To = Absent \<rparr>"

text \<open>
  \<open>int(block.get('Number', 0) or 0)\<close>: 0 for an absent, \<open>null\<close>, zero or empty number,
  and \<open>None\<close> for the \<open>ValueError\<close> of \<open>int\<close>.
\<close>

definition trade_block_number_of :: "builtins \<Rightarrow> raw_block \<Rightarrow> int option" where
  "trade_block_number_of b block =
     (case get_or (blk_Number block) (SInt 0) of
        None \<Rightarrow> Some 0
      | Some v \<Rightarrow> if truthy_scalar v then py_int b v else Some 0)"

text \<open>
  \<open>trade.get('Success', True) or True\<close>. \<open>Success\<close> is a Boolean of the provider's
  schema: absent, \<open>null\<close>, \<open>false\<close> or \<open>true\<close>. The operator \<open>or\<close> returns its left
  operand when that is true and its right operand \<open>True\<close> otherwise.
\<close>

definition success_of :: "raw_trade \<Rightarrow> bool" where
  "success_of trade =
     (case get_or (tr_Success trade) True of
        Some v \<Rightarrow> if v then v else True
      | None \<Rightarrow> True)"

definition token_info_of :: "raw_trade_currency \<Rightarrow> TokenInfo" where
  "token_info_of c =
     \<lparr> symbol = safe_str (get (tc_Symbol c)) [],
       name = safe_str (get (tc_Name c)) [],
       address = safe_str (get (tc_SmartContract c)) [],
       decimals = 18 \<rparr>"

text \<open>
  The body of the loop of \<open>_transform_mempool_trades\<close>; \<open>None\<close> when a step raises and
  the row is skipped: \<open>.get\<close> on \<open>None\<close>, the errors of \<open>int\<close> and \<open>fromisoformat\<close>,
  and the \<open>OverflowError\<close> that \<open>safe_float\<close> lets through.
\<close>

definition transform_mempool_item :: "builtins \<Rightarrow> datetime \<Rightarrow> raw_mempool \<Rightarrow> MempoolTradeData option" where
  "transform_mempool_item b now item =
     do {
       block \<leftarrow> get_or (mp_Block item) empty_block;
       trade \<leftarrow> get_or (mp_Trade item) empty_trade;
       tx \<leftarrow> get_or (mp_Transaction item) empty_transaction;
       fee \<leftarrow> get_or (mp_Fee item) empty_fee;
       dex \<leftarrow> get_or (tr_Dex trade) empty_trade_dex;
       currency \<leftarrow> get_or (tr_Currency trade) empty_trade_currency;
       side \<leftarrow> get_or (tr_Side trade) empty_side;
       side_currency \<leftarrow> get_or (side_Currency side) empty_trade_currency;
       block_number' \<leftarrow> trade_block_number_of b block;
       block_time' \<leftarrow> block_time_of b now block;
       trade_amount' \<leftarrow> safe_float b (get (tr_Amount trade)) 0;
       trade_amount_usd' \<leftarrow> safe_float b (get (tr_AmountInUSD trade)) 0;
       side_amount' \<leftarrow> safe_float b (get (side_Amount side)) 0;
       side_amount_usd' \<leftarrow> safe_float b (get (side_AmountInUSD side)) 0;
       price' \<leftarrow> safe_float b (get (tr_Price trade)) 0;
       price_usd' \<leftarrow> safe_float b (get (tr_PriceInUSD trade)) 0;
       gas_fee' \<leftarrow> safe_float b (get (fee_SenderFee fee)) 0;
       gas_fee_usd' \<leftarrow> safe_float b (get (fee_SenderFeeInUSD fee)) 0;
       priority_fee' \<leftarrow> safe_float b (get (fee_PriorityFeePerGas fee)) 0;
       priority_fee_usd' \<leftarrow> safe_float b (get (fee_PriorityFeePerGasInUSD fee)) 0;
       Some \<lparr> tx_hash = safe_str (get (tx_Hash tx)) [],
              trade_block_number = block_number',
              trade_block_time = block_time',
              from_address = safe_str (get (tx_From tx)) [],
              to_address = safe_str (get (tx_To tx)) [],
              trade_protocol = safe_str (get (td_ProtocolName dex)) (str ''Unknown''),
              protocol_family = safe_str (get (td_ProtocolFamily dex)) (str ''Unknown''),
              trade_token = token_info_of currency,
              side_token = token_info_of side_currency,
              trade_amount = trade_amount',
              trade_amount_usd = trade_amount_usd',
              side_amount = side_amount',
              side_amount_usd = side_amount_usd',
              trade_price = price',
              price_usd = price_usd',
              gas_fee = gas_fee',
              gas_fee_usd = gas_fee_usd',
              priority_fee = priority_fee',
              priority_fee_usd = priority_fee_usd',
              success = success_of trade,
              buyer = safe_str (get (tr_Buyer trade)) [],
              seller = safe_str (get (tr_Seller trade)) [],
              sender = safe_str (get (tr_Sender trade)) [] \<rparr>
     }"

definition transform_mempool_trades :: "builtins \<Rightarrow> datetime \<Rightarrow> raw_mempool list \<Rightarrow> MempoolTradeData list" where
  "transform_mempool_trades b now raw_data = List.map_filter (transform_mempool_item b now) raw_data"

subsection \<open>The client\<close>

text \<open>
  The exceptions that leave the client: the two raised by \<open>_execute_query\<close>, whatever the
  transport raises, and the \<open>AttributeError\<close> and \<open>TypeError\<close> of an operation on
  \<open>None\<close>.
\<close>

datatype exn = BitqueryAPIError | GraphQLError | TransportError | AttributeError | TypeError

datatype query = DEX_POOL_SLIPPAGES_BY_TOKENS_QUERY | MEMPOOL_DEX_TRADES_BY_TOKENS_QUERY

record request =
  req_query :: query
  req_limit :: int
  req_tokenA :: pystr
  req_tokenB :: pystr

record evm_data =
  DEXPoolSlippages :: "raw_slippage list entry"
  DEXTradeByTokens :: "raw_mempool list entry"

record gql_data =
  EVM :: "evm_data entry"

text \<open>
  The HTTP response: \<open>response.ok\<close>, whether the JSON body has the key \<open>errors\<close>, and
  the entry \<open>data\<close> of the body.
\<close>

record response =
  ok :: bool
  has_errors :: bool
  body_data :: "gql_data entry"

text \<open>
  The provider is the opaque function behind \<open>requests.post\<close>: it answers a request with
  a response, or raises.
\<close>

type_synonym provider = "request \<Rightarrow> exn + response"

definition empty_evm :: evm_data where
  "empty_evm = \<lparr> DEXPoolSlippages = Absent, DEXTradeByTokens = Absent \<rparr>"

definition empty_gql :: gql_data where
  "empty_gql = \<lparr> EVM = Absent \<rparr>"

text \<open>
  \<open>_execute_query\<close>, with the list of the requests sent so far threaded through. The
  result is \<open>data.get('data', {})\<close>, which is \<open>None\<close> for a \<open>null\<close> entry.
\<close>

definition execute_query ::
  "provider \<Rightarrow> request \<Rightarrow> request list \<Rightarrow> (exn + gql_data option) \<times> request list" where
  "execute_query post rq calls =
     (case post rq of
        Inl e \<Rightarrow> (Inl e, calls @ [rq])
      | Inr resp \<Rightarrow>
          if \<not> ok resp then (Inl BitqueryAPIError, calls @ [rq])
          else if has_errors resp then (Inl GraphQLError, calls @ [rq])
          else (Inr (get_or (body_data resp) empty_gql), calls @ [rq]))"

definition normalize_token_address :: "pystr \<Rightarrow> pystr" where
  "normalize_token_address address' =
     (let s = lower (strip address') in if prefix (str ''0x'') s then s else str ''0x'' @ s)"

text \<open>
  \<open>data.get('EVM', {}).get(key, [])\<close>: an \<open>AttributeError\<close> when \<open>data\<close> or its entry
  \<open>EVM\<close> is \<open>None\<close>; the rows may be \<open>None\<close>.
\<close>

definition rows_of :: "(evm_data \<Rightarrow> 'r list entry) \<Rightarrow> gql_data option \<Rightarrow> exn + 'r list option" where
  "rows_of key d =
     (case d of
        None \<Rightarrow> Inl AttributeError
      | Some d' \<Rightarrow>
          (case get_or (EVM d') empty_evm of
             None \<Rightarrow> Inl AttributeError
           | Some evm \<Rightarrow> Inr (get_or (key evm) [])))"

text \<open>
  \<open>fetch_dex_pool_slippages\<close>. The (A, B) query is sent first; the swapped query is
  sent when its rows are empty (or \<open>None\<close>).
\<close>

definition fetch_dex_pool_slippages ::
  "provider \<Rightarrow> builtins \<Rightarrow> datetime \<Rightarrow> int \<Rightarrow> pystr option \<Rightarrow> pystr option \<Rightarrow> request list
     \<Rightarrow> (exn + PoolSlippageData list) \<times> request list" where
  "fetch_dex_pool_slippages post b now limit token_a_address token_b_address calls =
     (case (token_a_address, token_b_address) of
        (Some a, Some b') \<Rightarrow>
          if a = [] \<or> b' = [] then (Inr [], calls)
          else
            let ta = normalize_token_address a;
                tb = normalize_token_address b';
                variables_ab = \<lparr> req_query = DEX_POOL_SLIPPAGES_BY_TOKENS_QUERY, req_limit = limit,
                                 req_tokenA = ta, req_tokenB = tb \<rparr>;
                variables_ba = \<lparr> req_query = DEX_POOL_SLIPPAGES_BY_TOKENS_QUERY, req_limit = limit,
                                 req_tokenA = tb, req_tokenB = ta \<rparr>
            in (case execute_query post variables_ab calls of
                  (Inl e, calls1) \<Rightarrow> (Inl e, calls1)
                | (Inr data_ab, calls1) \<Rightarrow>
                    (case rows_of DEXPoolSlippages data_ab of
                       Inl e \<Rightarrow> (Inl e, calls1)
                     | Inr (Some (r # rs)) \<Rightarrow>
                         (Inr (transform_slippage_data b now (slice_to (r # rs) limit)), calls1)
                     | Inr _ \<Rightarrow>
                         (case execute_query post variables_ba calls1 of
                            (Inl e, calls2) \<Rightarrow> (Inl e, calls2)
                          | (Inr data_ba, calls2) \<Rightarrow>
                              (case rows_of DEXPoolSlippages data_ba of
                                 Inl e \<Rightarrow> (Inl e, calls2)
                               | Inr None \<Rightarrow> (Inl TypeError, calls2)
                               | Inr (Some slippages_ba) \<Rightarrow>
                                   (Inr (transform_slippage_data b now (slice_to slippages_ba limit)),
                                    calls2)))))
      | _ \<Rightarrow> (Inr [], calls))"

text \<open>
  The hash by which the merge identifies a row:
  \<open>(item.get('Transaction') or {}).get('Hash')\<close>, and \<open>None\<close> when that is \<open>None\<close> or
  empty (the tests \<open>if tx_hash\<close>).
\<close>

definition row_hash :: "raw_mempool \<Rightarrow> pystr option" where
  "row_hash item =
     (case get (tx_Hash (case get (mp_Transaction item) of
                           None \<Rightarrow> empty_transaction
                         | Some tx \<Rightarrow> tx)) of
        None \<Rightarrow> None
      | Some h \<Rightarrow> if h \<noteq> [] then Some h else None)"

text \<open>The merge loop of \<open>fetch_mempool_trades\<close>, with the set \<open>seen_hashes\<close>.\<close>

fun merge_loop :: "pystr set \<Rightarrow> raw_mempool list \<Rightarrow> raw_mempool list" where
  "merge_loop seen_hashes [] = []"
| "merge_loop seen_hashes (item # rest) =
     (case row_hash item of
        None \<Rightarrow> item # merge_loop seen_hashes rest
      | Some h \<Rightarrow>
          if h \<in> seen_hashes then merge_loop seen_hashes rest
          else item # merge_loop (insert h seen_hashes) rest)"

text \<open>
  \<open>fetch_mempool_trades\<close>. Both queries are sent before either answer is read;
  \<open>trades_ab + trades_ba\<close> raises \<open>TypeError\<close> when one of them is \<open>None\<close>.
\<close>

definition fetch_mempool_trades ::
  "provider \<Rightarrow> builtins \<Rightarrow> datetime \<Rightarrow> int \<Rightarrow> pystr option \<Rightarrow> pystr option \<Rightarrow> request list
     \<Rightarrow> (exn + MempoolTradeData list) \<times> request list" where
  "fetch_mempool_trades post b now limit token_a_address token_b_address calls =
     (case (token_a_address, token_b_address) of
        (Some a, Some b') \<Rightarrow>
          if a = [] \<or> b' = [] then (Inr [], calls)
          else
            let ta = normalize_token_address a;
                tb = normalize_token_address b';
                per_limit = max (limit div 2) 5;
                variables_ab = \<lparr> req_query = MEMPOOL_DEX_TRADES_BY_TOKENS_QUERY, req_limit = per_limit,
                                 req_tokenA = ta, req_tokenB = tb \<rparr>;
                variables_ba = \<lparr> req_query = MEMPOOL_DEX_TRADES_BY_TOKENS_QUERY, req_limit = per_limit,
                                 req_tokenA = tb, req_tokenB = ta \<rparr>
            in (case execute_query post variables_ab calls of
                  (Inl e, calls1) \<Rightarrow> (Inl e, calls1)
                | (Inr data_ab, calls1) \<Rightarrow>
                    (case execute_query post variables_ba calls1 of
                       (Inl e, calls2) \<Rightarrow> (Inl e, calls2)
                     | (Inr data_ba, calls2) \<Rightarrow>
                         (case rows_of DEXTradeByTokens data_ab of
                            Inl e \<Rightarrow> (Inl e, calls2)
                          | Inr trades_ab \<Rightarrow>
                              (case rows_of DEXTradeByTokens data_ba of
                                 Inl e \<Rightarrow> (Inl e, calls2)
                               | Inr trades_ba \<Rightarrow>
                                   (case (trades_ab, trades_ba) of
                                      (Some ab, Some ba) \<Rightarrow>
                                        (Inr (transform_mempool_trades b now
                                                (slice_to (merge_loop {} (ab @ ba)) limit)),
                                         calls2)
                                    | _ \<Rightarrow> (Inl TypeError, calls2))))))
      | _ \<Rightarrow> (Inr [], calls))"

section \<open>data\_service.py\<close>

text \<open>
  The state of a \<open>DataService\<close>. A callback is either set or not; what it is called with
  is recorded in a log (\<open>slippage_updates\<close>, \<open>mempool_updates\<close>, \<open>errors\<close>). The state
  also holds the requests its client has sent and the clock that \<open>datetime.now()\<close>
  reads.
\<close>

record DataService =
  refresh_interval :: int
  slippage_data :: "PoolSlippageData list"
  mempool_data :: "MempoolTradeData list"
  last_slippage_update :: "datetime option"
  last_mempool_update :: "datetime option"
  running :: bool
  on_slippage_update :: bool
  on_mempool_update :: bool
  on_error :: bool
  slippage_updates :: "PoolSlippageData list list"
  mempool_updates :: "MempoolTradeData list list"
  errors :: "exn list"
  provider_calls :: "request list"
  clock :: datetime

definition DATA_REFRESH_INTERVAL :: int where
  "DATA_REFRESH_INTERVAL = 30"

text \<open>The state after \<open>__init__\<close>, at a given time.\<close>

definition init_service :: "datetime \<Rightarrow> DataService" where
  "init_service now =
     \<lparr> refresh_interval = DATA_REFRESH_INTERVAL, slippage_data = [], mempool_data = [],
       last_slippage_update = None, last_mempool_update = None, running = False,
       on_slippage_update = False, on_mempool_update = False, on_error = False,
       slippage_updates = [], mempool_updates = [], errors = [], provider_calls = [],
       clock = now \<rparr>"

definition set_on_error :: "DataService \<Rightarrow> DataService" where
  "set_on_error self = self\<lparr> on_error := True \<rparr>"

text \<open>The error callback, when set, is called with the exception.\<close>

definition report_error :: "exn \<Rightarrow> DataService \<Rightarrow> DataService" where
  "report_error e self = (if on_error self then self\<lparr> errors := errors self @ [e] \<rparr> else self)"

definition fetch_slippage_data ::
  "provider \<Rightarrow> builtins \<Rightarrow> int \<Rightarrow> pystr option \<Rightarrow> pystr option \<Rightarrow> DataService
     \<Rightarrow> (exn + PoolSlippageData list) \<times> DataService" where
  "fetch_slippage_data post b limit token_a' token_b' self =
     (let addr_a = (if truthy_str token_a' then token_to_address token_a' else None);
          addr_b = (if truthy_str token_b' then token_to_address token_b' else None)
      in case fetch_dex_pool_slippages post b (clock self) limit addr_a addr_b (provider_calls self) of
           (Inl e, calls) \<Rightarrow> (Inl e, report_error e (self\<lparr> provider_calls := calls \<rparr>))
         | (Inr rows, calls) \<Rightarrow>
             (Inr rows,
              self\<lparr> provider_calls := calls,
                    slippage_data := rows,
                    last_slippage_update := Some (clock self),
                    slippage_updates :=
                      (if on_slippage_update self then slippage_updates self @ [rows]
                       else slippage_updates self) \<rparr>))"

definition fetch_mempool_data ::
  "provider \<Rightarrow> builtins \<Rightarrow> int \<Rightarrow> pystr option \<Rightarrow> pystr option \<Rightarrow> DataService
     \<Rightarrow> (exn + MempoolTradeData list) \<times> DataService" where
  "fetch_mempool_data post b limit token_a' token_b' self =
     (let addr_a = (if truthy_str token_a' then token_to_address token_a' else None);
          addr_b = (if truthy_str token_b' then token_to_address token_b' else None)
      in case fetch_mempool_trades post b (clock self) limit addr_a addr_b (provider_calls self) of
           (Inl e, calls) \<Rightarrow> (Inl e, report_error e (self\<lparr> provider_calls := calls \<rparr>))
         | (Inr rows, calls) \<Rightarrow>
             (Inr rows,
              self\<lparr> provider_calls := calls,
                    mempool_data := rows,
                    last_mempool_update := Some (clock self),
                    mempool_updates :=
                      (if on_mempool_update self then mempool_updates self @ [rows]
                       else mempool_updates self) \<rparr>))"

text \<open>
  \<open>fetch_all\<close> builds a dictionary whose entries are evaluated in order: the slippage
  fetch first, and the mempool fetch only when the first one returned.
\<close>

definition fetch_all ::
  "provider \<Rightarrow> builtins \<Rightarrow> pystr option \<Rightarrow> pystr option \<Rightarrow> DataService
     \<Rightarrow> (exn + PoolSlippageData list \<times> MempoolTradeData list) \<times> DataService" where
  "fetch_all post b token_a' token_b' self =
     (case fetch_slippage_data post b SLIPPAGE_QUERY_LIMIT token_a' token_b' self of
        (Inl e, self1) \<Rightarrow> (Inl e, self1)
      | (Inr sl, self1) \<Rightarrow>
          (case fetch_mempool_data post b MEMPOOL_QUERY_LIMIT token_a' token_b' self1 of
             (Inl e, self2) \<Rightarrow> (Inl e, self2)
           | (Inr mp, self2) \<Rightarrow> (Inr (sl, mp), self2)))"

text \<open>
  One turn of the loop of \<open>_refresh_loop\<close>: \<open>fetch_all()\<close> without a token pair, the
  error callback on an exception, and the sleep, which advances the clock.
\<close>

definition refresh_cycle :: "provider \<Rightarrow> builtins \<Rightarrow> DataService \<Rightarrow> DataService" where
  "refresh_cycle post b self =
     (let self1 = (case fetch_all post b None None self of
                     (Inl e, s) \<Rightarrow> report_error e s
                   | (Inr _, s) \<Rightarrow> s)
      in self1\<lparr> clock := clock self1 + refresh_interval self1 \<rparr>)"

text \<open>
  The loop \<open>while self._running\<close>, for at most \<open>n\<close> turns: it leaves only when
  \<open>running\<close> is false, which \<open>stop\<close> sets from another thread.
\<close>

fun refresh_loop :: "nat \<Rightarrow> provider \<Rightarrow> builtins \<Rightarrow> DataService \<Rightarrow> DataService" where
  "refresh_loop 0 post b self = self"
| "refresh_loop (Suc n) post b self =
     (if running self then refresh_loop n post b (refresh_cycle post b self) else self)"

text \<open>\<open>max\<close> over a non-empty sequence, taken from left to right.\<close>

definition py_max :: "int \<Rightarrow> int list \<Rightarrow> int" where
  "py_max x xs = fold (\<lambda>y m. if y > m then y else m) xs x"

definition get_latest_block :: "DataService \<Rightarrow> int option" where
  "get_latest_block self =
     (case slippage_data self of
        [] \<Rightarrow> None
      | s # rest \<Rightarrow> Some (py_max (block_number s) (map block_number rest)))"

record mempool_summary =
  count :: nat
  total_value_usd :: real
  unique_protocols :: nat

definition get_mempool_summary :: "DataService \<Rightarrow> mempool_summary" where
  "get_mempool_summary self =
     (if mempool_data self = []
      then \<lparr> count = 0, total_value_usd = 0, unique_protocols = 0 \<rparr>
      else \<lparr> count = length (mempool_data self),
             total_value_usd = sum_list (map trade_amount_usd (mempool_data self)),
             unique_protocols = length (remdups (map trade_protocol (mempool_data self))) \<rparr>)"

section \<open>app.py\<close>

text \<open>
  The handler of \<open>/api/data\<close>. A query parameter is stripped, and \<open>None\<close> when missing or
  empty. The JSON answer is modelled by its fields; of the mempool dictionaries the
  trades they are built from are kept (the first 15 of the stored list). An exception
  gives the answer with status 500, here \<open>Inl\<close>.
\<close>

record api_data =
  data_slippage :: "api_item list"
  data_mempool :: "MempoolTradeData list"
  data_summary :: mempool_summary
  data_latest_block :: "int option"
  data_last_updated :: "datetime option"

definition request_arg :: "pystr option \<Rightarrow> pystr option" where
  "request_arg v =
     (let s = strip (case v of None \<Rightarrow> [] | Some x \<Rightarrow> x) in if s \<noteq> [] then Some s else None)"

definition get_all_data ::
  "provider \<Rightarrow> builtins \<Rightarrow> pystr option \<Rightarrow> pystr option \<Rightarrow> DataService
     \<Rightarrow> (exn + api_data) \<times> DataService" where
  "get_all_data post b arg_a arg_b service =
     (let token_a' = request_arg arg_a;
          token_b' = request_arg arg_b
      in case fetch_all post b token_a' token_b' service of
           (Inl e, service1) \<Rightarrow> (Inl e, service1)
         | (Inr _, service1) \<Rightarrow>
             (Inr \<lparr> data_slippage =
                      transform_slippage_for_api (slippage_data service1) token_a' token_b' True,
                    data_mempool = slice_to (mempool_data service1) 15,
                    data_summary = get_mempool_summary service1,
                    data_latest_block = get_latest_block service1,
                    data_last_updated = last_mempool_update service1 \<rparr>,
              service1))"

section \<open>Requests, answers and sample data of the client\<close>

text \<open>
  The requests that the two fetch functions send for a pair of addresses, and what the
  provider's answer to a slippage request amounts to for the client: an exception, or the
  rows (possibly \<open>None\<close>).
\<close>

definition slippage_request :: "int \<Rightarrow> pystr \<Rightarrow> pystr \<Rightarrow> request" where
  "slippage_request limit a b =
     \<lparr> req_query = DEX_POOL_SLIPPAGES_BY_TOKENS_QUERY, req_limit = limit,
       req_tokenA = normalize_token_address a, req_tokenB = normalize_token_address b \<rparr>"

definition mempool_request :: "int \<Rightarrow> pystr \<Rightarrow> pystr \<Rightarrow> request" where
  "mempool_request limit a b =
     \<lparr> req_query = MEMPOOL_DEX_TRADES_BY_TOKENS_QUERY, req_limit = max (limit div 2) 5,
       req_tokenA = normalize_token_address a, req_tokenB = normalize_token_address b \<rparr>"

definition slippage_answer :: "provider \<Rightarrow> request \<Rightarrow> exn + raw_slippage list option" where
  "slippage_answer post rq =
     (case fst (execute_query post rq []) of
        Inl e \<Rightarrow> Inl e
      | Inr d \<Rightarrow> rows_of DEXPoolSlippages d)"

text \<open>
  Sample providers and rows. \<open>example_builtins\<close> gives the values of Python's
  conversions on the strings that occur in the samples (times in seconds after
  2024-01-01T00:00:00+00:00).
\<close>

definition failing_provider :: provider where
  "failing_provider rq = Inl TransportError"


definition slippage_response :: "raw_slippage list \<Rightarrow> response" where
  "slippage_response rows =
     \<lparr> ok = True, has_errors = False,
       body_data = Val \<lparr> EVM = Val \<lparr> DEXPoolSlippages = Val rows, DEXTradeByTokens = Absent \<rparr> \<rparr> \<rparr>"

definition mempool_response :: "raw_mempool list \<Rightarrow> response" where
  "mempool_response rows =
     \<lparr> ok = True, has_errors = False,
       body_data = Val \<lparr> EVM = Val \<lparr> DEXPoolSlippages = Absent, DEXTradeByTokens = Val rows \<rparr> \<rparr> \<rparr>"

definition example_provider ::
  "raw_slippage list \<Rightarrow> raw_slippage list \<Rightarrow> raw_mempool list \<Rightarrow> raw_mempool list \<Rightarrow> pystr \<Rightarrow> pystr
     \<Rightarrow> provider" where
  "example_provider sl_ab sl_ba mp_ab mp_ba a b rq =
     (case req_query rq of
        DEX_POOL_SLIPPAGES_BY_TOKENS_QUERY \<Rightarrow>
          Inr (slippage_response (if req_tokenA rq = a \<and> req_tokenB rq = b then sl_ab else sl_ba))
      | MEMPOOL_DEX_TRADES_BY_TOKENS_QUERY \<Rightarrow>
          Inr (mempool_response (if req_tokenA rq = a \<and> req_tokenB rq = b then mp_ab else mp_ba)))"

definition example_builtins :: builtins where
  "example_builtins =
     \<lparr> int_of_str = (\<lambda>s. if s = str ''19842771'' then Some 19842771 else None),
       float_of_str = (\<lambda>s. if s = str ''1.5'' then Some 1.5 else None),
       fromisoformat =
         (\<lambda>s. if s = str ''2024-01-01T00:00:05+00:00'' then Some 5
              else if s = str ''2024-01-01T00:00:09+00:00'' then Some 9
              else None) \<rparr>"

definition example_slippage_row :: "pystr \<Rightarrow> pystr \<Rightarrow> int \<Rightarrow> real \<Rightarrow> real \<Rightarrow> raw_slippage" where
  "example_slippage_row sy_a sy_b tier p_btoa max_btoa =
     \<lparr> sl_Price = Val \<lparr> pr_BtoA = Val \<lparr> dir_Price = Some p_btoa, dir_MinAmountOut = None,
                                       dir_MaxAmountIn = Some max_btoa \<rparr>,
                        pr_AtoB = Absent,
                        pr_Pool = Val \<lparr> pool_SmartContract = None,
                                       pool_CurrencyB = Val (empty_pool_currency\<lparr> cur_Symbol := Some sy_b \<rparr>),
                                       pool_CurrencyA = Val (empty_pool_currency\<lparr> cur_Symbol := Some sy_a \<rparr>) \<rparr>,
                        pr_Dex = Absent,
                        pr_SlippageBasisPoints = Some tier \<rparr>,
       sl_Block = Val \<lparr> blk_Time = Val (str ''2024-01-01T00:00:05Z''), blk_Number = Val (SStr (str ''19842771'')) \<rparr> \<rparr>"

definition example_mempool_row :: "pystr entry \<Rightarrow> pystr \<Rightarrow> bool entry \<Rightarrow> raw_mempool" where
  "example_mempool_row hash time succ =
     \<lparr> mp_Block = Val \<lparr> blk_Time = Val time, blk_Number = Val (SStr (str ''19842771'')) \<rparr>,
       mp_Fee = Absent,
       mp_Trade = Val (empty_trade\<lparr> tr_AmountInUSD := Val (SStr (str ''1.5'')), tr_Success := succ \<rparr>),
       mp_Transaction = Val \<lparr> tx_Hash = hash, tx_From = Absent, tx_To = Absent \<rparr> \<rparr>"

definition USDC :: pystr where
  "USDC = str ''0xa0b86991c6218b36c1d19d4a2e9eb0ce3606eb48''"

definition WETH :: pystr where
  "WETH = str ''0xc02aaa39b223fe8d0a0e5c4f27ead9083c756cc2''"

text \<open>
  Two token addresses, and the one row that the provider has for them: a pool listed
  under (B, A), with the symbols BBB and AAA, tier 25, B to A price 1800.5 and B to A
  maximal input 50000, and no A to B entry.
\<close>

definition TOKEN_A :: pystr where
  "TOKEN_A = str ''0xaaaaaaaaaaaaaaaaaaaaaaaaaaaaaaaaaaaaaaaa''"

definition TOKEN_B :: pystr where
  "TOKEN_B = str ''0xbbbbbbbbbbbbbbbbbbbbbbbbbbbbbbbbbbbbbbbb''"

definition example_fallback_row :: raw_slippage where
  "example_fallback_row =
     \<lparr> sl_Price =
         Val \<lparr> pr_BtoA = Val \<lparr> dir_Price = Some 1800.5, dir_MinAmountOut = None,
                               dir_MaxAmountIn = Some 50000 \<rparr>,
               pr_AtoB = Absent,
               pr_Pool =
                 Val \<lparr> pool_SmartContract = None,
                       pool_CurrencyB =
                         Val \<lparr> cur_Symbol = Some (str ''AAA''), cur_SmartContract = Some TOKEN_A,
                               cur_Name = None, cur_Decimals = None \<rparr>,
                       pool_CurrencyA =
                         Val \<lparr> cur_Symbol = Some (str ''BBB''), cur_SmartContract = Some TOKEN_B,
                               cur_Name = None, cur_Decimals = None \<rparr> \<rparr>,
               pr_Dex = Absent,
               pr_SlippageBasisPoints = Some 25 \<rparr>,
       sl_Block = Val \<lparr> blk_Time = Val (str ''2024-01-01T00:00:05Z''),
                        blk_Number = Val (SStr (str ''19842771'')) \<rparr> \<rparr>"

text \<open>
  \<open>start\<close> sets \<open>_running\<close> (the thread it creates runs \<open>refresh_loop\<close>). The sample
  service has an error callback, is running, and holds one slippage point stored at time 90.
\<close>

definition start :: "DataService \<Rightarrow> DataService" where
  "start self = (if running self then self else self\<lparr> running := True \<rparr>)"

definition example_service :: DataService where
  "example_service =
     start (set_on_error
       ((init_service 100)
          \<lparr> slippage_data := [example_point (str ''uniswap'') (str ''WETH'') (str ''USDC'') 25 0.0005 1800.5 27 50000],
            last_slippage_update := Some 90 \<rparr>))"

text \<open>
  The transaction hashes that occur in a list of rows, and the order of a list of
  trades by descending block time.
\<close>

definition hashes :: "raw_mempool list \<Rightarrow> pystr set" where
  "hashes rows = set (List.map_filter row_hash rows)"

definition newest_first :: "MempoolTradeData list \<Rightarrow> bool" where
  "newest_first ts = sorted_wrt (\<lambda>s t. trade_block_time t \<le> trade_block_time s) ts"

section \<open>Properties of calculation.py\<close>

lemma slippage_loop_kept:
  "slippage_loop ta tb inc seen xs = map (api_item_of ta tb inc) (kept_points seen xs)"
  by (induction xs arbitrary: seen) auto

lemma bps_api_item_of [simp]: "bps (api_item_of ta tb inc s) = slippage_bps s"
  by (simp add: api_item_of_def Let_def)

lemma set_kept_points:
  "slippage_bps ` set (kept_points seen xs) = slippage_bps ` set xs - seen"
  by (induction xs arbitrary: seen) auto

lemma kept_points_subset: "set (kept_points seen xs) \<subseteq> set xs"
  by (induction xs arbitrary: seen) auto

lemma distinct_kept_points: "distinct (map slippage_bps (kept_points seen xs))"
proof (induction xs arbitrary: seen)
  case Nil
  then show ?case by simp
next
  case (Cons s rest)
  have "slippage_bps s \<notin> slippage_bps ` set (kept_points (insert (slippage_bps s) seen) rest)"
    by (simp add: set_kept_points)
  with Cons show ?case by auto
qed

lemma subseq_kept_points: "subseq (kept_points seen xs) xs"
  by (induction xs arbitrary: seen) auto

lemma sorted_kept_points:
  "sorted (map slippage_bps xs) \<Longrightarrow> sorted (map slippage_bps (kept_points seen xs))"
proof (induction xs arbitrary: seen)
  case Nil
  then show ?case by simp
next
  case (Cons s rest)
  then show ?case using kept_points_subset[of _ rest] by (auto simp: )
qed

lemma find_kept_points:
  "s \<in> set (kept_points seen xs) \<Longrightarrow> find (\<lambda>t. slippage_bps t = slippage_bps s) xs = Some s"
proof (induction xs arbitrary: seen)
  case Nil
  then show ?case by simp
next
  case (Cons x rest)
  show ?case
  proof (cases "slippage_bps x \<in> seen")
    case True
    with Cons.prems have in_rest: "s \<in> set (kept_points seen rest)" by simp
    then have "slippage_bps s \<in> slippage_bps ` set (kept_points seen rest)" by blast
    then have "slippage_bps s \<notin> seen" by (simp add: set_kept_points)
    with True have "slippage_bps x \<noteq> slippage_bps s" by auto
    with Cons.IH[OF in_rest] show ?thesis by simp
  next
    case False
    with Cons.prems consider "s = x" | "s \<in> set (kept_points (insert (slippage_bps x) seen) rest)"
      by auto
    then show ?thesis
    proof cases
      case 1
      then show ?thesis by simp
    next
      case 2
      then have "slippage_bps s \<in> slippage_bps ` set (kept_points (insert (slippage_bps x) seen) rest)"
        by blast
      then have "slippage_bps s \<noteq> slippage_bps x" by (simp add: set_kept_points)
      with Cons.IH[OF 2] show ?thesis by simp
    qed
  qed
qed

lemma find_filter_hd: "find P xs = (case filter P xs of [] \<Rightarrow> None | x # _ \<Rightarrow> Some x)"
  by (induction xs) auto

lemma find_sort_key_stable:
  "find (\<lambda>t. f t = k) (sort_key f xs) = find (\<lambda>t. f t = k) xs"
  by (simp add: find_filter_hd sort_key_stable)

lemma transform_item_first:
  assumes "it \<in> set (transform_slippage_for_api xs ta tb inc)"
  shows "\<exists>s. find (\<lambda>t. slippage_bps t = bps it) xs = Some s \<and> it = api_item_of ta tb inc s"
proof -
  let ?kept = "kept_points {} (sort_key slippage_bps xs)"
  from assms obtain s where s: "s \<in> set ?kept" and it: "it = api_item_of ta tb inc s"
    by (auto simp: transform_slippage_for_api_def slippage_loop_kept)
  from find_kept_points[OF s] have "find (\<lambda>t. slippage_bps t = slippage_bps s) xs = Some s"
    by (simp add: find_sort_key_stable)
  with it show ?thesis by auto
qed

lemma api_item_of_reversed:
  "is_pool_reversed (symbol (token_a s)) (symbol (token_b s)) ta tb \<Longrightarrow>
   price (api_item_of ta tb inc s) = (if 0 < price_btoa s then price_btoa s else 0) \<and>
   max_amount (api_item_of ta tb inc s) = max_amount_in_btoa s"
  by (simp add: api_item_of_def Let_def)

lemma api_item_of_direct:
  "\<not> is_pool_reversed (symbol (token_a s)) (symbol (token_b s)) ta tb \<Longrightarrow>
   price (api_item_of ta tb inc s) = (if 0 < price_atob s then price_atob s else 0) \<and>
   max_amount (api_item_of ta tb inc s) = max_amount_in_atob s"
  by (simp add: api_item_of_def Let_def)

lemmas ex_defs = example_point_def example_token_def transform_slippage_for_api_def
  api_item_of_def is_pool_reversed_def truthy_str_def str_def

text \<open>
  C2. The output of \<open>transform_slippage_for_api\<close> is sorted ascending by tier, no two
  of its items have the same tier, its tiers are exactly the tiers of the input, and the
  item of a tier is built from the first point of that tier in the input order.
\<close>

theorem slippage_sorted_dedup_first:
  "sorted (map bps (transform_slippage_for_api xs ta tb inc)) \<and>
   distinct (map bps (transform_slippage_for_api xs ta tb inc)) \<and>
   set (map bps (transform_slippage_for_api xs ta tb inc)) = slippage_bps ` set xs \<and>
   (\<forall>it \<in> set (transform_slippage_for_api xs ta tb inc).
      \<exists>s. find (\<lambda>t. slippage_bps t = bps it) xs = Some s \<and> it = api_item_of ta tb inc s)"
proof -
  let ?ys = "sort_key slippage_bps xs"
  let ?kept = "kept_points {} ?ys"
  have out: "transform_slippage_for_api xs ta tb inc = map (api_item_of ta tb inc) ?kept"
    by (simp add: transform_slippage_for_api_def slippage_loop_kept)
  have tiers: "map bps (transform_slippage_for_api xs ta tb inc) = map slippage_bps ?kept"
    by (simp add: out comp_def)
  have "sorted (map slippage_bps ?ys)" by simp
  then have s: "sorted (map slippage_bps ?kept)" by (rule sorted_kept_points)
  have d: "distinct (map slippage_bps ?kept)" by (rule distinct_kept_points)
  have e: "set (map slippage_bps ?kept) = slippage_bps ` set xs"
    using set_kept_points[of "{}" ?ys] by simp
  have f: "\<exists>s. find (\<lambda>t. slippage_bps t = bps it) xs = Some s \<and> it = api_item_of ta tb inc s"
    if "it \<in> set (transform_slippage_for_api xs ta tb inc)" for it
  proof -
    from that obtain s where s: "s \<in> set ?kept" and it: "it = api_item_of ta tb inc s"
      by (auto simp: out)
    from find_kept_points[OF s] have "find (\<lambda>t. slippage_bps t = slippage_bps s) xs = Some s"
      by (simp add: find_sort_key_stable)
    with it show ?thesis by auto
  qed
  from s d e f show ?thesis by (simp only: tiers) blast
qed

text \<open>
  Four points with the tiers 50, 25, 50, 25 (protocols a, b, c, d): the output has the
  tiers 25 and 50, built from b and a, the first points of these tiers.
\<close>

theorem slippage_sorted_dedup_first_witness:
  "map item_protocol (transform_slippage_for_api
     [example_point (str ''a'') (str ''WETH'') (str ''USDC'') 50 1 1 1 1,
      example_point (str ''b'') (str ''WETH'') (str ''USDC'') 25 1 1 1 1,
      example_point (str ''c'') (str ''WETH'') (str ''USDC'') 50 1 1 1 1,
      example_point (str ''d'') (str ''WETH'') (str ''USDC'') 25 1 1 1 1]
     None None False) = [str ''b v3'', str ''a v3'']"
  using slippage_sorted_dedup_first[of "[example_point (str ''a'') (str ''WETH'') (str ''USDC'') 50 1 1 1 1,
      example_point (str ''b'') (str ''WETH'') (str ''USDC'') 25 1 1 1 1,
      example_point (str ''c'') (str ''WETH'') (str ''USDC'') 50 1 1 1 1,
      example_point (str ''d'') (str ''WETH'') (str ''USDC'') 25 1 1 1 1]" None None False]
  by (simp add: ex_defs)

text \<open>
  The direction correction for a request that names the tokens by the pool's symbols.
  Every output item is built from the first input point of its tier; when the symbols of
  that point's pool tokens are the requested token strings in reverse order
  (\<open>is_pool_reversed\<close>), the item's price is the point's B to A price if that price is
  positive and 0 otherwise, and its maximal amount is the point's B to A maximal input
  amount.
\<close>

lemma slippage_direction_correction:
  assumes "it \<in> set (transform_slippage_for_api xs ta tb inc)"
  shows "\<exists>s. find (\<lambda>t. slippage_bps t = bps it) xs = Some s \<and>
           (is_pool_reversed (symbol (token_a s)) (symbol (token_b s)) ta tb \<longrightarrow>
              price it = (if 0 < price_btoa s then price_btoa s else 0) \<and>
              max_amount it = max_amount_in_btoa s)"
proof -
  from transform_item_first[OF assms] obtain s
    where s: "find (\<lambda>t. slippage_bps t = bps it) xs = Some s" and it: "it = api_item_of ta tb inc s"
    by blast
  show ?thesis
  proof (intro exI conjI impI)
    show "find (\<lambda>t. slippage_bps t = bps it) xs = Some s" by (rule s)
  next
    assume "is_pool_reversed (symbol (token_a s)) (symbol (token_b s)) ta tb"
    from api_item_of_reversed[OF this] show "price it = (if 0 < price_btoa s then price_btoa s else 0)"
      by (simp add: it)
  next
    assume "is_pool_reversed (symbol (token_a s)) (symbol (token_b s)) ta tb"
    from api_item_of_reversed[OF this] show "max_amount it = max_amount_in_btoa s"
      by (simp add: it)
  qed
qed

text \<open>
  One point of the pool (WETH, USDC) with tier 25, B to A price 1800.5 and B to A maximal
  input 50000, requested by symbol as (USDC, WETH), gives the single item with tier 25,
  price 1800.5 and maximal amount 50000.
\<close>

lemma slippage_direction_correction_by_symbol:
  "transform_slippage_for_api
     [example_point (str ''uniswap'') (str ''WETH'') (str ''USDC'') 25 0.0005 1800.5 27 50000]
     (Some (str ''USDC'')) (Some (str ''WETH'')) False
   = [\<lparr> bps = 25, max_amount = 50000, price = 1800.5, item_price_btoa = 1800.5,
        item_protocol = str ''uniswap v3'', item_token_a = None, item_token_b = None \<rparr>]"
  using slippage_direction_correction[of "\<lparr> bps = 25, max_amount = 50000, price = 1800.5, item_price_btoa = 1800.5,
        item_protocol = str ''uniswap v3'', item_token_a = None, item_token_b = None \<rparr>"
      "[example_point (str ''uniswap'') (str ''WETH'') (str ''USDC'') 25 0.0005 1800.5 27 50000]"
      "Some (str ''USDC'')" "Some (str ''WETH'')" False]
  by (simp add: ex_defs)

text \<open>
  The guard on the price: a reversed point whose B to A price is not positive is
  published with the price 0.
\<close>

lemma slippage_price_guard:
  "is_pool_reversed (str ''WETH'') (str ''USDC'') (Some (str ''USDC'')) (Some (str ''WETH'')) \<and>
   map price (transform_slippage_for_api
     [example_point (str ''uniswap'') (str ''WETH'') (str ''USDC'') 25 0.0005 (- 1800.5) 27 50000]
     (Some (str ''USDC'')) (Some (str ''WETH'')) False) = [0] \<and>
   price_btoa (example_point (str ''uniswap'') (str ''WETH'') (str ''USDC'') 25 0.0005 (- 1800.5) 27 50000) = - 1800.5"
  by (simp add: ex_defs)

text \<open>
  The reversal test compares the pool's token symbols with the request strings. A request
  that names the same tokens by address is not recognised as reversed, and the A to B
  fields are reported.
\<close>

lemma scenario_addresses:
  "map price (transform_slippage_for_api
     [example_point (str ''uniswap'') (str ''WETH'') (str ''USDC'') 25 0.0005 1800.5 27 50000]
     (Some (str ''0xa0b86991c6218b36c1d19d4a2e9eb0ce3606eb48''))
     (Some (str ''0xc02aaa39b223fe8d0a0e5c4f27ead9083c756cc2'')) False) = [0.0005]"
  by (simp add: ex_defs)

section \<open>Properties of config.py\<close>

lemmas resolve_defs = token_to_address_def str_def strip_def isspace_def lower_def lower_cp_def
  upper_def upper_cp_def TOKEN_ADDRESSES_def hex_digits_def

lemma resolve_None: "token_to_address None = None"
  by (simp add: token_to_address_def)

lemma resolve_empty: "token_to_address (Some []) = None"
  by (simp add: token_to_address_def)

lemma resolve_USDC:
  "token_to_address (Some (str ''USDC'')) = Some (str ''0xa0b86991c6218b36c1d19d4a2e9eb0ce3606eb48'')"
  by (simp add: resolve_defs)

lemma resolve_usdc_lower_case:
  "token_to_address (Some (str ''usdc'')) = Some (str ''0xa0b86991c6218b36c1d19d4a2e9eb0ce3606eb48'')"
  by (simp add: resolve_defs)

lemma resolve_USDC_address:
  "token_to_address (Some (str ''0xA0B86991C6218B36C1D19D4A2E9EB0CE3606EB48''))
     = Some (str ''0xa0b86991c6218b36c1d19d4a2e9eb0ce3606eb48'')"
  by (simp add: resolve_defs)

lemma resolve_USDC_bare_address:
  "token_to_address (Some (str ''A0B86991C6218B36C1D19D4A2E9EB0CE3606EB48''))
     = Some (str ''0xa0b86991c6218b36c1d19d4a2e9eb0ce3606eb48'')"
  by (simp add: resolve_defs)

lemma resolve_unknown_symbol: "token_to_address (Some (str ''SHIB'')) = None"
  by (simp add: resolve_defs)

text \<open>
  Case conversion and stripping on ASCII strings, and the two address branches in
  general: 40 hexadecimal digits resolve to their lower case form with the prefix \<open>0x\<close>,
  and 42 characters that start with \<open>0x\<close> and do not end in white space resolve to their
  lower case form.
\<close>

lemma lower_map: "ascii s \<Longrightarrow> lower s = map lower_ascii s"
  by (induction s) (auto simp: ascii_def lower_def lower_cp_def lower_ascii_def)

lemma ascii_lower: "ascii s \<Longrightarrow> ascii (lower s)"
  by (auto simp: lower_map) (auto simp: ascii_def list_all_iff lower_ascii_def)

lemma lower_lower: "ascii s \<Longrightarrow> lower (lower s) = lower s"
proof -
  assume a: "ascii s"
  have "lower_ascii (lower_ascii c) = lower_ascii c" for c
    by (simp add: lower_ascii_def)
  then show ?thesis using a ascii_lower[OF a] by (simp add: lower_map)
qed

lemma isspace_lower_ascii: "isspace (lower_ascii c) = isspace c"
  by (auto simp: isspace_def lower_ascii_def)

lemma strip_id: "s \<noteq> [] \<Longrightarrow> \<not> isspace (hd s) \<Longrightarrow> \<not> isspace (last s) \<Longrightarrow> strip s = s"
proof -
  assume ne: "s \<noteq> []" and h: "\<not> isspace (hd s)" and l: "\<not> isspace (last s)"
  from ne h have 1: "dropWhile isspace s = s" by (cases s) simp_all
  from ne l have "\<not> isspace (hd (rev s))" by (simp add: hd_rev)
  with ne have 2: "dropWhile isspace (rev s) = rev s" by (cases "rev s") simp_all
  show ?thesis by (simp add: strip_def 1 2)
qed

lemma last_dropWhile: "dropWhile P xs \<noteq> [] \<Longrightarrow> last (dropWhile P xs) = last xs"
  by (metis last_appendR takeWhile_dropWhile_id)

lemma strip_ends:
  assumes "strip t \<noteq> []"
  shows "\<not> isspace (hd (strip t)) \<and> \<not> isspace (last (strip t))"
proof -
  let ?u = "dropWhile isspace t"
  let ?v = "dropWhile isspace (rev ?u)"
  have s: "strip t = rev ?v" by (simp add: strip_def)
  with assms have v: "?v \<noteq> []" by simp
  then have hv: "\<not> isspace (hd ?v)" by (rule hd_dropWhile)
  have u: "?u \<noteq> []"
  proof
    assume e: "?u = []"
    from v show False unfolding e by simp
  qed
  then have hu: "\<not> isspace (hd ?u)" by (rule hd_dropWhile)
  from v have "last ?v = last (rev ?u)" by (rule last_dropWhile)
  with u have "last ?v = hd ?u" by (simp only: last_rev)
  with hu hv v show ?thesis by (simp add: s hd_rev last_rev)
qed

lemma ascii_strip: "ascii t \<Longrightarrow> ascii (strip t)"
proof -
  assume "ascii t"
  moreover have "set (strip t) \<subseteq> set t"
    by (auto simp: strip_def dest!: set_dropWhileD)
  ultimately show ?thesis by (auto simp: ascii_def list_all_iff)
qed

lemma strip_lower:
  assumes "ascii s" "s \<noteq> []" "\<not> isspace (hd s)" "\<not> isspace (last s)"
  shows "strip (lower s) = lower s"
proof -
  from assms(1) have m: "lower s = map lower_ascii s" by (rule lower_map)
  from assms(2) have "hd (lower s) = lower_ascii (hd s)" "last (lower s) = lower_ascii (last s)"
    by (simp_all add: m hd_map last_map)
  with assms show ?thesis by (intro strip_id) (simp_all add: m isspace_lower_ascii)
qed

lemma prefix_0x_lower:
  assumes "ascii s" "prefix (str ''0x'') s"
  shows "prefix (str ''0x'') (lower s)"
proof -
  from assms(2) obtain r where r: "s = [48, 120] @ r" by (auto simp: prefix_def str_def)
  with assms(1) have "lower s = [48, 120] @ map lower_ascii r"
    by (simp add: lower_map lower_ascii_def)
  then show ?thesis by (simp add: str_def)
qed

lemma hex_ascii: "list_all (\<lambda>c. c \<in> set hex_digits) s \<Longrightarrow> ascii s"
  by (auto simp: ascii_def list_all_iff hex_digits_def str_def)

lemma hex_not_space: "c \<in> set hex_digits \<Longrightarrow> \<not> isspace (lower_ascii c)"
  by (auto simp: hex_digits_def str_def isspace_def lower_ascii_def)

lemma hex_not_space': "c \<in> set hex_digits \<Longrightarrow> \<not> isspace c"
  by (auto simp: hex_digits_def str_def isspace_def)

lemma resolve_bare_hex:
  assumes "length s = 40" "list_all (\<lambda>c. c \<in> set hex_digits) s"
  shows "token_to_address (Some s) = Some (str ''0x'' @ lower s)"
proof -
  from assms(1) have ne: "s \<noteq> []" by auto
  with assms(2) have "hd s \<in> set hex_digits" "last s \<in> set hex_digits"
    by (auto simp: list_all_iff)
  then have "\<not> isspace (hd s)" "\<not> isspace (last s)" by (simp_all add: hex_not_space')
  with ne have "strip s = s" by (intro strip_id)
  with assms ne show ?thesis by (simp add: token_to_address_def)
qed

lemma resolve_prefixed:
  assumes "prefix (str ''0x'') s" "length s = 42" "\<not> isspace (last s)"
  shows "token_to_address (Some s) = Some (lower s)"
proof -
  from assms(2) have ne: "s \<noteq> []" by auto
  from assms(1) have "hd s = 48" by (auto simp: prefix_def str_def)
  then have "\<not> isspace (hd s)" by (simp add: isspace_def)
  with ne assms(3) have "strip s = s" by (intro strip_id)
  with assms ne show ?thesis by (simp add: token_to_address_def)
qed

text \<open>
  C6. The branch for a \<open>0x\<close> prefix checks the length only, not the digits: a string of
  42 characters that starts with \<open>0x\<close> and is not hexadecimal is returned in lower case
  as an address, where the claim says \<open>None\<close>. (The branch for a bare address does check the
  digits.)
\<close>

theorem resolve_accepts_malformed_hex:
  "token_to_address (Some (str ''0xZZZZZZZZZZZZZZZZZZZZZZZZZZZZZZZZZZZZZZZZ''))
     = Some (str ''0xzzzzzzzzzzzzzzzzzzzzzzzzzzzzzzzzzzzzzzzz'')"
  by (simp add: resolve_defs)

text \<open>
  C9. Through the same branch, the 42 characters \<open>0x\<close>, U+0130 and 39 times \<open>a\<close> are
  returned in lower case, which has 43 characters (U+0130 becomes \<open>i\<close> and U+0307); the
  result is not resolved in turn, so \<open>token_to_address\<close> is not idempotent there.
\<close>

theorem resolve_not_idempotent:
  "token_to_address (Some (str ''0x'' @ [304] @ str ''aaaaaaaaaaaaaaaaaaaaaaaaaaaaaaaaaaaaaaa''))
     = Some (str ''0x'' @ [105, 775] @ str ''aaaaaaaaaaaaaaaaaaaaaaaaaaaaaaaaaaaaaaa'') \<and>
   token_to_address (Some (str ''0x'' @ [105, 775] @ str ''aaaaaaaaaaaaaaaaaaaaaaaaaaaaaaaaaaaaaaa''))
     = None"
  by (simp add: resolve_defs)

text \<open>
  On ASCII input, where no character changes the length of the string in lower case,
  every success of \<open>token_to_address\<close> is a fixed point.
\<close>

lemma table_values:
  "snd ` set TOKEN_ADDRESSES =
     {str ''0xa0b86991c6218b36c1d19d4a2e9eb0ce3606eb48'',
      str ''0xdac17f958d2ee523a2206206994597c13d831ec7'',
      str ''0x6b175474e89094c44da98b954eedeac495271d0f'',
      str ''0xc02aaa39b223fe8d0a0e5c4f27ead9083c756cc2'',
      str ''0x2260fac5e5542a773aa44fbcfedf7c193bc2c599''}"
  by (simp add: TOKEN_ADDRESSES_def insert_commute)

lemma table_values_fixed:
  assumes "(k, a) \<in> set TOKEN_ADDRESSES"
  shows "token_to_address (Some a) = Some a"
proof -
  from assms have "a \<in> snd ` set TOKEN_ADDRESSES" by force
  then consider "a = str ''0xa0b86991c6218b36c1d19d4a2e9eb0ce3606eb48''"
    | "a = str ''0xdac17f958d2ee523a2206206994597c13d831ec7''"
    | "a = str ''0x6b175474e89094c44da98b954eedeac495271d0f''"
    | "a = str ''0xc02aaa39b223fe8d0a0e5c4f27ead9083c756cc2''"
    | "a = str ''0x2260fac5e5542a773aa44fbcfedf7c193bc2c599''"
    unfolding table_values by blast
  then show ?thesis
  proof cases
    case 1
    show ?thesis unfolding 1 by (simp add: resolve_defs)
  next
    case 2
    show ?thesis unfolding 2 by (simp add: resolve_defs)
  next
    case 3
    show ?thesis unfolding 3 by (simp add: resolve_defs)
  next
    case 4
    show ?thesis unfolding 4 by (simp add: resolve_defs)
  next
    case 5
    show ?thesis unfolding 5 by (simp add: resolve_defs)
  qed
qed

lemma token_to_address_idempotent_ascii:
  assumes "ascii t" and res: "token_to_address (Some t) = Some a"
  shows "token_to_address (Some a) = Some a"
proof -
  let ?s = "strip t"
  from assms(1) have as: "ascii ?s" by (rule ascii_strip)
  from res have tne: "t \<noteq> []" by (auto simp: token_to_address_def)
  from res tne have unfolded:
    "(if prefix (str ''0x'') ?s \<and> length ?s = 42 then Some (lower ?s)
      else if length ?s = 40 \<and> list_all (\<lambda>c. c \<in> set hex_digits) ?s
        then Some (str ''0x'' @ lower ?s)
      else map_of TOKEN_ADDRESSES (upper ?s)) = Some a"
    by (simp add: token_to_address_def Let_def)
  consider (addr) "prefix (str ''0x'') ?s" "length ?s = 42" "a = lower ?s"
    | (bare) "length ?s = 40" "list_all (\<lambda>c. c \<in> set hex_digits) ?s" "a = str ''0x'' @ lower ?s"
    | (table) "map_of TOKEN_ADDRESSES (upper ?s) = Some a"
  proof (cases "prefix (str ''0x'') ?s \<and> length ?s = 42")
    case True
    with unfolded have "a = lower ?s" by simp
    with True that(1) show ?thesis by blast
  next
    case False
    note nf = this
    show ?thesis
    proof (cases "length ?s = 40 \<and> list_all (\<lambda>c. c \<in> set hex_digits) ?s")
      case True
      with unfolded nf have "a = str ''0x'' @ lower ?s" by simp
      with True that(2) show ?thesis by blast
    next
      case False
      with unfolded nf have "map_of TOKEN_ADDRESSES (upper ?s) = Some a" by simp
      with that(3) show ?thesis by blast
    qed
  qed
  then show ?thesis
  proof cases
    case addr
    from addr(2) have ne: "?s \<noteq> []" by auto
    from strip_ends[OF ne] have ends: "\<not> isspace (hd ?s)" "\<not> isspace (last ?s)" by simp_all
    have 1: "strip a = a" unfolding addr(3) using as ne ends by (rule strip_lower)
    have 2: "prefix (str ''0x'') a" unfolding addr(3) using as addr(1) by (rule prefix_0x_lower)
    have 3: "length a = 42" by (simp add: addr(3) lower_map[OF as] addr(2))
    have 4: "lower a = a" unfolding addr(3) using as by (rule lower_lower)
    from 3 have "a \<noteq> []" by auto
    with 1 2 3 4 show ?thesis by (simp add: token_to_address_def)
  next
    case bare
    from bare(1) have ne: "?s \<noteq> []" by auto
    have m: "lower ?s = map lower_ascii ?s" using as by (rule lower_map)
    have a: "a = [48, 120] @ map lower_ascii ?s" by (simp add: bare(3) m str_def)
    from ne bare(2) have "last ?s \<in> set hex_digits" by (auto simp: list_all_iff)
    then have "\<not> isspace (last a)"
      using ne by (simp add: a last_map hex_not_space)
    moreover have "\<not> isspace (hd a)" by (simp add: a isspace_def)
    moreover have ane: "a \<noteq> []" by (simp add: a)
    ultimately have 1: "strip a = a" by (intro strip_id)
    have 2: "prefix (str ''0x'') a" by (simp add: a str_def)
    have 3: "length a = 42" by (simp add: a bare(1))
    have "ascii a" using as by (auto simp: a ascii_def list_all_iff lower_ascii_def)
    then have "lower a = map lower_ascii a" by (rule lower_map)
    also have "\<dots> = a" by (simp add: a lower_ascii_def)
    finally have 4: "lower a = a" .
    from 1 2 3 4 ane show ?thesis by (simp add: token_to_address_def)
  next
    case table
    then have "(upper ?s, a) \<in> set TOKEN_ADDRESSES" by (rule map_of_SomeD)
    then show ?thesis by (rule table_values_fixed)
  qed
qed

section \<open>Properties of bitquery\_client.py\<close>

lemma execute_query_calls: "snd (execute_query post rq calls) = calls @ [rq]"
  by (simp add: execute_query_def split: sum.splits)

lemma execute_query_fst: "fst (execute_query post rq calls) = fst (execute_query post rq [])"
  by (simp add: execute_query_def split: sum.splits)

lemma execute_query_eq:
  "execute_query post rq calls = (fst (execute_query post rq []), calls @ [rq])"
  using execute_query_calls[of post rq calls] execute_query_fst[of post rq calls]
  by (metis prod.collapse)

lemma fetch_slippages_unresolved:
  "\<not> truthy_str ta \<or> \<not> truthy_str tb \<Longrightarrow>
   fetch_dex_pool_slippages post b now limit ta tb calls = (Inr [], calls)"
  by (auto simp: fetch_dex_pool_slippages_def truthy_str_def split: option.splits)

lemma fetch_mempool_unresolved:
  "\<not> truthy_str ta \<or> \<not> truthy_str tb \<Longrightarrow>
   fetch_mempool_trades post b now limit ta tb calls = (Inr [], calls)"
  by (auto simp: fetch_mempool_trades_def truthy_str_def split: option.splits)

lemma fetch_slippages_resolved:
  assumes "a \<noteq> []" "b' \<noteq> []"
  shows "fetch_dex_pool_slippages post b now limit (Some a) (Some b') calls =
     (case slippage_answer post (slippage_request limit a b') of
        Inl e \<Rightarrow> (Inl e, calls @ [slippage_request limit a b'])
      | Inr (Some (r # rs)) \<Rightarrow>
          (Inr (transform_slippage_data b now (slice_to (r # rs) limit)),
           calls @ [slippage_request limit a b'])
      | Inr _ \<Rightarrow>
          (case slippage_answer post (slippage_request limit b' a) of
             Inl e \<Rightarrow> Inl e
           | Inr None \<Rightarrow> Inl TypeError
           | Inr (Some rows) \<Rightarrow> Inr (transform_slippage_data b now (slice_to rows limit)),
           calls @ [slippage_request limit a b', slippage_request limit b' a]))"
proof -
  let ?ab = "\<lparr> req_query = DEX_POOL_SLIPPAGES_BY_TOKENS_QUERY, req_limit = limit,
       req_tokenA = normalize_token_address a, req_tokenB = normalize_token_address b' \<rparr>"
  let ?ba = "\<lparr> req_query = DEX_POOL_SLIPPAGES_BY_TOKENS_QUERY, req_limit = limit,
       req_tokenA = normalize_token_address b', req_tokenB = normalize_token_address a \<rparr>"
  have ab: "execute_query post ?ab calls = (fst (execute_query post ?ab []), calls @ [?ab])"
    by (rule execute_query_eq)
  have ba: "execute_query post ?ba (calls @ [?ab]) = (fst (execute_query post ?ba []), calls @ [?ab, ?ba])"
    using execute_query_eq[of post ?ba "calls @ [?ab]"] by simp
  show ?thesis
    using assms
    by (simp add: fetch_dex_pool_slippages_def Let_def slippage_answer_def slippage_request_def ab ba
        split: sum.splits option.splits list.splits)
qed


lemma slippage_answer_cases:
  "(\<exists>e. slippage_answer post rq = Inl e) \<or> slippage_answer post rq = Inr None \<or>
   slippage_answer post rq = Inr (Some []) \<or> (\<exists>r rs. slippage_answer post rq = Inr (Some (r # rs)))"
proof (cases "slippage_answer post rq")
  case (Inl e)
  then show ?thesis by simp
next
  case (Inr rows)
  then show ?thesis by (cases rows; simp) (metis list.exhaust)
qed

lemmas client_defs = fetch_dex_pool_slippages_def fetch_mempool_trades_def execute_query_def
  rows_of_def get_or_def get_def normalize_token_address_def strip_def isspace_def lower_def
  lower_cp_def str_def slice_to_def empty_gql_def empty_evm_def slippage_request_def
  mempool_request_def slippage_answer_def example_provider_def slippage_response_def
  mempool_response_def USDC_def WETH_def truthy_str_def failing_provider_def

text \<open>
  C4. When a token address is \<open>None\<close> or empty, both fetch functions return the empty
  list and send nothing. With both addresses given, \<open>fetch_dex_pool_slippages\<close> sends the
  (A, B) request first; it returns the rows of that answer when there are some, fails
  with the exception of that answer when there is one, and sends the swapped (B, A)
  request exactly when the first answer has no rows.
\<close>

theorem fetch_slippages_orientation:
  "(\<not> truthy_str ta \<or> \<not> truthy_str tb \<longrightarrow>
      fetch_dex_pool_slippages post b now limit ta tb calls = (Inr [], calls) \<and>
      fetch_mempool_trades post b now limit ta tb calls = (Inr [], calls)) \<and>
   (a \<noteq> [] \<and> b' \<noteq> [] \<longrightarrow>
      (\<forall>r rs. slippage_answer post (slippage_request limit a b') = Inr (Some (r # rs)) \<longrightarrow>
          fetch_dex_pool_slippages post b now limit (Some a) (Some b') calls =
            (Inr (transform_slippage_data b now (slice_to (r # rs) limit)),
             calls @ [slippage_request limit a b'])) \<and>
      (\<forall>e. slippage_answer post (slippage_request limit a b') = Inl e \<longrightarrow>
          fetch_dex_pool_slippages post b now limit (Some a) (Some b') calls =
            (Inl e, calls @ [slippage_request limit a b'])) \<and>
      (snd (fetch_dex_pool_slippages post b now limit (Some a) (Some b') calls) =
          calls @ [slippage_request limit a b'] \<or>
       snd (fetch_dex_pool_slippages post b now limit (Some a) (Some b') calls) =
          calls @ [slippage_request limit a b', slippage_request limit b' a]) \<and>
      ((snd (fetch_dex_pool_slippages post b now limit (Some a) (Some b') calls) =
          calls @ [slippage_request limit a b', slippage_request limit b' a]) =
       (slippage_answer post (slippage_request limit a b') = Inr (Some []) \<or>
        slippage_answer post (slippage_request limit a b') = Inr None)))"
proof (intro conjI impI)
  assume "\<not> truthy_str ta \<or> \<not> truthy_str tb"
  then show "fetch_dex_pool_slippages post b now limit ta tb calls = (Inr [], calls)"
    by (rule fetch_slippages_unresolved)
next
  assume "\<not> truthy_str ta \<or> \<not> truthy_str tb"
  then show "fetch_mempool_trades post b now limit ta tb calls = (Inr [], calls)"
    by (rule fetch_mempool_unresolved)
next
  assume "a \<noteq> [] \<and> b' \<noteq> []"
  then have eq: "fetch_dex_pool_slippages post b now limit (Some a) (Some b') calls =
     (case slippage_answer post (slippage_request limit a b') of
        Inl e \<Rightarrow> (Inl e, calls @ [slippage_request limit a b'])
      | Inr (Some (r # rs)) \<Rightarrow>
          (Inr (transform_slippage_data b now (slice_to (r # rs) limit)),
           calls @ [slippage_request limit a b'])
      | Inr _ \<Rightarrow>
          (case slippage_answer post (slippage_request limit b' a) of
             Inl e \<Rightarrow> Inl e
           | Inr None \<Rightarrow> Inl TypeError
           | Inr (Some rows) \<Rightarrow> Inr (transform_slippage_data b now (slice_to rows limit)),
           calls @ [slippage_request limit a b', slippage_request limit b' a]))"
    by (simp add: fetch_slippages_resolved)
  show "\<forall>r rs. slippage_answer post (slippage_request limit a b') = Inr (Some (r # rs)) \<longrightarrow>
          fetch_dex_pool_slippages post b now limit (Some a) (Some b') calls =
            (Inr (transform_slippage_data b now (slice_to (r # rs) limit)),
             calls @ [slippage_request limit a b'])"
    by (simp add: eq)
  show "\<forall>e. slippage_answer post (slippage_request limit a b') = Inl e \<longrightarrow>
          fetch_dex_pool_slippages post b now limit (Some a) (Some b') calls =
            (Inl e, calls @ [slippage_request limit a b'])"
    by (simp add: eq)
  show "snd (fetch_dex_pool_slippages post b now limit (Some a) (Some b') calls) =
          calls @ [slippage_request limit a b'] \<or>
       snd (fetch_dex_pool_slippages post b now limit (Some a) (Some b') calls) =
          calls @ [slippage_request limit a b', slippage_request limit b' a]"
    using slippage_answer_cases[of post "slippage_request limit a b'"]
    by (auto simp: eq)
  show "(snd (fetch_dex_pool_slippages post b now limit (Some a) (Some b') calls) =
          calls @ [slippage_request limit a b', slippage_request limit b' a]) =
       (slippage_answer post (slippage_request limit a b') = Inr (Some []) \<or>
        slippage_answer post (slippage_request limit a b') = Inr None)"
    using slippage_answer_cases[of post "slippage_request limit a b'"]
    by (auto simp: eq)
qed

text \<open>
  An unresolved side sends nothing; a provider with rows only under (WETH, USDC) is asked
  twice for (USDC, WETH), one with rows under (USDC, WETH) once.
\<close>

theorem fetch_slippages_orientation_witness:
  "fetch_dex_pool_slippages failing_provider example_builtins 0 50 None (Some USDC) [] = (Inr [], []) \<and>
   fetch_mempool_trades failing_provider example_builtins 0 20 (Some WETH) (Some []) [] = (Inr [], []) \<and>
   snd (fetch_dex_pool_slippages
          (example_provider [] [example_slippage_row (str ''WETH'') (str ''USDC'') 25 1800.5 50000] [] [] USDC WETH)
          example_builtins 0 50 (Some USDC) (Some WETH) [])
     = [slippage_request 50 USDC WETH, slippage_request 50 WETH USDC] \<and>
   snd (fetch_dex_pool_slippages
          (example_provider [example_slippage_row (str ''USDC'') (str ''WETH'') 25 1800.5 50000] [] [] [] USDC WETH)
          example_builtins 0 50 (Some USDC) (Some WETH) [])
     = [slippage_request 50 USDC WETH]"
  using fetch_slippages_orientation[of None "Some USDC" failing_provider example_builtins 0 50 "[]" USDC WETH]
    fetch_slippages_orientation[of "Some WETH" "Some []" failing_provider example_builtins 0 20 "[]" USDC WETH]
    fetch_slippages_orientation[of None None "example_provider [] [example_slippage_row (str ''WETH'') (str ''USDC'') 25 1800.5 50000] [] [] USDC WETH"
        example_builtins 0 50 "[]" USDC WETH]
    fetch_slippages_orientation[of None None "example_provider [example_slippage_row (str ''USDC'') (str ''WETH'') 25 1800.5 50000] [] [] [] USDC WETH"
        example_builtins 0 50 "[]" USDC WETH]
  by (simp add: client_defs)

lemma transform_mempool_item_success:
  "transform_mempool_item b now item = Some t \<Longrightarrow> success t"
  by (auto simp: transform_mempool_item_def success_of_def split: Option.bind_splits option.splits)

lemmas parse_defs = transform_mempool_trades_def transform_mempool_item_def List.map_filter_def
  example_mempool_row_def example_builtins_def get_or_def get_def block_time_of_def
  trade_block_number_of_def truthy_scalar_def py_int_def py_float_def safe_float_def safe_str_def
  replace_Z_def success_of_def token_info_of_def empty_trade_def empty_fee_def empty_side_def
  empty_trade_dex_def empty_trade_currency_def str_def

text \<open>
  C8. Every trade that \<open>_transform_mempool_trades\<close> produces has \<open>success\<close> true,
  whatever the provider reports in \<open>Success\<close>.
\<close>

theorem mempool_success_always_true:
  "t \<in> set (transform_mempool_trades b now raw_data) \<Longrightarrow> success t = True"
  by (auto simp: transform_mempool_trades_def List.map_filter_def dest: transform_mempool_item_success)

text \<open>
  Three rows whose \<open>Success\<close> is \<open>false\<close>, \<open>false\<close> and \<open>null\<close>; the second has a time
  that does not parse and is skipped; the two trades produced have \<open>success\<close> true.
\<close>

theorem mempool_success_always_true_witness:
  "map success (transform_mempool_trades example_builtins 0
      [example_mempool_row (Val (str ''0xabc'')) (str ''2024-01-01T00:00:05Z'') (Val False),
       example_mempool_row Null (str ''not a time'') (Val False),
       example_mempool_row Absent (str ''2024-01-01T00:00:09Z'') Null]) = [True, True]"
  using mempool_success_always_true[of _ example_builtins 0
      "[example_mempool_row (Val (str ''0xabc'')) (str ''2024-01-01T00:00:05Z'') (Val False),
       example_mempool_row Null (str ''not a time'') (Val False),
       example_mempool_row Absent (str ''2024-01-01T00:00:09Z'') Null]"]
  by (simp add: parse_defs)

section \<open>Properties of data\_service.py and app.py\<close>

lemma py_max_Max: "py_max x xs = Max (set (x # xs))"
proof -
  have "(\<lambda>y m. if y > m then y else m) = (max :: int \<Rightarrow> int \<Rightarrow> int)"
    by (intro ext) (simp add: max_def)
  then have "py_max x xs = fold max xs x"
    by (simp add: py_max_def)
  with Max.set_eq_fold[of x xs] show ?thesis
    by simp
qed

lemmas service_defs = get_all_data_def request_arg_def fetch_all_def fetch_slippage_data_def
  fetch_mempool_data_def get_latest_block_def get_mempool_summary_def init_service_def
  DATA_REFRESH_INTERVAL_def SLIPPAGE_QUERY_LIMIT_def MEMPOOL_QUERY_LIMIT_def
  token_to_address_def upper_def upper_cp_def TOKEN_ADDRESSES_def hex_digits_def
  fetch_dex_pool_slippages_def fetch_mempool_trades_def execute_query_def
  rows_of_def normalize_token_address_def strip_def isspace_def lower_def
  lower_cp_def slice_to_def empty_gql_def empty_evm_def example_provider_def slippage_response_def
  mempool_response_def USDC_def WETH_def truthy_str_def transform_slippage_data_def row_hash_def
  transform_slippage_for_api_def

text \<open>
  C10. \<open>get_latest_block\<close> is \<open>None\<close> exactly when the stored slippage list is empty and
  the greatest block number of the stored slippage points otherwise; the stored mempool
  trades have no part in it; and the field \<open>latest_block\<close> of the answer of \<open>/api/data\<close>
  is this value for the state after the fetch.
\<close>

theorem latest_block_from_slippage_only:
  "get_latest_block self =
     (if slippage_data self = [] then None
      else Some (Max (block_number ` set (slippage_data self)))) \<and>
   get_latest_block (self\<lparr> mempool_data := m \<rparr>) = get_latest_block self \<and>
   (case get_all_data post b arg_a arg_b self of
      (Inl e, service1) \<Rightarrow> True
    | (Inr d, service1) \<Rightarrow>
        data_latest_block d =
          (if slippage_data service1 = [] then None
           else Some (Max (block_number ` set (slippage_data service1)))))"
proof -
  have a: "get_latest_block s =
     (if slippage_data s = [] then None else Some (Max (block_number ` set (slippage_data s))))" for s
    by (cases "slippage_data s") (simp_all add: get_latest_block_def py_max_Max)
  have b: "get_latest_block (self\<lparr> mempool_data := m \<rparr>) = get_latest_block self"
    by (simp add: get_latest_block_def)
  have c: "(case get_all_data post b arg_a arg_b self of
      (Inl e, service1) \<Rightarrow> True
    | (Inr d, service1) \<Rightarrow>
        data_latest_block d =
          (if slippage_data service1 = [] then None
           else Some (Max (block_number ` set (slippage_data service1)))))"
    by (simp add: get_all_data_def Let_def a split: prod.splits sum.splits)
  from a b c show ?thesis by blast
qed

text \<open>
  A provider with no slippage rows and one mempool trade at block 19842771: the answer
  holds the trade, and its \<open>latest_block\<close> is \<open>None\<close>.
\<close>

theorem latest_block_from_slippage_only_witness:
  "(case get_all_data
           (example_provider [] []
              [example_mempool_row (Val (str ''0xabc'')) (str ''2024-01-01T00:00:05Z'') (Val True)] []
              USDC WETH)
           example_builtins (Some (str ''USDC'')) (Some (str ''WETH'')) (init_service 100) of
      (Inl e, service1) \<Rightarrow> False
    | (Inr d, service1) \<Rightarrow>
        data_latest_block d = None \<and> map tx_hash (data_mempool d) = [str ''0xabc''] \<and>
        map trade_block_number (mempool_data service1) = [19842771])"
  using latest_block_from_slippage_only[of "init_service 100" "[]"
           "example_provider [] []
              [example_mempool_row (Val (str ''0xabc'')) (str ''2024-01-01T00:00:05Z'') (Val True)] []
              USDC WETH"
           example_builtins "Some (str ''USDC'')" "Some (str ''WETH'')"]
  by (simp add: service_defs parse_defs Let_def)

text \<open>
  The loop calls \<open>fetch_all()\<close> without a token pair, so both fetch functions return the
  empty list without a request: a turn of the loop stores two empty lists with the
  current time, calls the update callbacks, and never fails.
\<close>

lemma fetch_slippage_data_no_pair:
  "fetch_slippage_data post b limit None None self =
     (Inr [], self\<lparr> slippage_data := [], last_slippage_update := Some (clock self),
                   slippage_updates := (if on_slippage_update self then slippage_updates self @ [[]]
                                        else slippage_updates self) \<rparr>)"
  by (simp add: fetch_slippage_data_def fetch_dex_pool_slippages_def truthy_str_def)

lemma fetch_mempool_data_no_pair:
  "fetch_mempool_data post b limit None None self =
     (Inr [], self\<lparr> mempool_data := [], last_mempool_update := Some (clock self),
                   mempool_updates := (if on_mempool_update self then mempool_updates self @ [[]]
                                       else mempool_updates self) \<rparr>)"
  by (simp add: fetch_mempool_data_def fetch_mempool_trades_def truthy_str_def)

lemma refresh_cycle_no_pair:
  "refresh_cycle post b self =
     self\<lparr> slippage_data := [], last_slippage_update := Some (clock self),
           slippage_updates := (if on_slippage_update self then slippage_updates self @ [[]]
                                else slippage_updates self),
           mempool_data := [], last_mempool_update := Some (clock self),
           mempool_updates := (if on_mempool_update self then mempool_updates self @ [[]]
                               else mempool_updates self),
           clock := clock self + refresh_interval self \<rparr>"
  by (simp add: refresh_cycle_def fetch_all_def fetch_slippage_data_no_pair fetch_mempool_data_no_pair)

lemma refresh_cycle_silent:
  "errors (refresh_cycle post b self) = errors self \<and>
   provider_calls (refresh_cycle post b self) = provider_calls self \<and>
   slippage_data (refresh_cycle post b self) = [] \<and>
   mempool_data (refresh_cycle post b self) = [] \<and>
   running (refresh_cycle post b self) = running self"
  by (simp add: refresh_cycle_no_pair)

lemma refresh_loop_silent:
  "errors (refresh_loop n post b self) = errors self \<and>
   provider_calls (refresh_loop n post b self) = provider_calls self"
  by (induction n arbitrary: self) (simp_all add: refresh_cycle_silent)

text \<open>
  C5. A service with an error callback that holds a slippage point, running two turns of
  the loop against a provider that raises on every call: the error callback is not called,
  no request is sent, and the stored data is replaced by the empty list with a new time.
\<close>

theorem refresh_loop_never_reports_failure:
  "slippage_data example_service \<noteq> [] \<and>
   last_slippage_update example_service = Some 90 \<and>
   on_error example_service \<and>
   errors (refresh_loop 2 failing_provider example_builtins example_service) = [] \<and>
   provider_calls (refresh_loop 2 failing_provider example_builtins example_service) = [] \<and>
   slippage_data (refresh_loop 2 failing_provider example_builtins example_service) = [] \<and>
   last_slippage_update (refresh_loop 2 failing_provider example_builtins example_service) = Some 130 \<and>
   last_mempool_update (refresh_loop 2 failing_provider example_builtins example_service) = Some 130"
  by (simp add: numeral_2_eq_2 refresh_cycle_no_pair example_service_def start_def set_on_error_def
      init_service_def DATA_REFRESH_INTERVAL_def)

text \<open>
  What C5 describes does hold for a fetch on demand with a resolved pair: when the
  provider raises at the first request, \<open>fetch_all\<close> reports the exception to the error
  callback and leaves the stored data and both times as they were.
\<close>

lemma fetch_all_failure:
  assumes "ta \<noteq> []" "tb \<noteq> []"
    and "token_to_address (Some ta) = Some a" "token_to_address (Some tb) = Some b'"
    and "a \<noteq> []" "b' \<noteq> []"
    and "post (slippage_request SLIPPAGE_QUERY_LIMIT a b') = Inl e"
  shows "fetch_all post b (Some ta) (Some tb) self =
     (Inl e, report_error e
        (self\<lparr> provider_calls := provider_calls self @ [slippage_request SLIPPAGE_QUERY_LIMIT a b'] \<rparr>))"
  using assms
  by (simp add: fetch_all_def fetch_slippage_data_def truthy_str_def fetch_dex_pool_slippages_def
      Let_def execute_query_def slippage_request_def)

lemma fetch_all_failure_keeps_data:
  assumes "ta \<noteq> []" "tb \<noteq> []"
    and "token_to_address (Some ta) = Some a" "token_to_address (Some tb) = Some b'"
    and "a \<noteq> []" "b' \<noteq> []"
    and "post (slippage_request SLIPPAGE_QUERY_LIMIT a b') = Inl e"
  shows "slippage_data (snd (fetch_all post b (Some ta) (Some tb) self)) = slippage_data self \<and>
         mempool_data (snd (fetch_all post b (Some ta) (Some tb) self)) = mempool_data self \<and>
         last_slippage_update (snd (fetch_all post b (Some ta) (Some tb) self)) = last_slippage_update self \<and>
         last_mempool_update (snd (fetch_all post b (Some ta) (Some tb) self)) = last_mempool_update self \<and>
         errors (snd (fetch_all post b (Some ta) (Some tb) self)) =
           (if on_error self then errors self @ [e] else errors self)"
  using fetch_all_failure[of ta tb a b' post e b self] assms
  by (simp add: report_error_def)

section \<open>Properties of the mempool merge\<close>

lemma hashes_simps [simp]:
  "hashes [] = {}"
  "hashes (r # rs) = (case row_hash r of None \<Rightarrow> hashes rs | Some h \<Rightarrow> insert h (hashes rs))"
  by (simp_all add: hashes_def split: option.splits)

lemma merge_loop_append:
  "merge_loop seen (xs @ ys) = merge_loop seen xs @ merge_loop (seen \<union> hashes xs) ys"
proof (induction xs arbitrary: seen)
  case Nil
  then show ?case by simp
next
  case (Cons r rs)
  show ?case
  proof (cases "row_hash r")
    case None
    then show ?thesis by (simp add: Cons.IH)
  next
    case (Some h)
    have "insert h seen \<union> hashes rs = seen \<union> insert h (hashes rs)" by blast
    moreover have "h \<in> seen \<Longrightarrow> seen \<union> insert h (hashes rs) = seen \<union> hashes rs" by blast
    ultimately show ?thesis using Some by (simp add: Cons.IH)
  qed
qed

lemma subseq_merge_loop: "subseq (merge_loop seen xs) xs"
  by (induction xs arbitrary: seen) (auto split: option.splits)

lemma merge_loop_keeps_unhashed:
  "filter (\<lambda>r. row_hash r = None) (merge_loop seen xs) = filter (\<lambda>r. row_hash r = None) xs"
  by (induction xs arbitrary: seen) (auto split: option.splits)

lemma merge_loop_seen:
  "h \<in> seen \<Longrightarrow> filter (\<lambda>r. row_hash r = Some h) (merge_loop seen xs) = []"
  by (induction xs arbitrary: seen) (auto split: option.splits)

lemma merge_loop_first:
  "h \<notin> seen \<Longrightarrow>
   filter (\<lambda>r. row_hash r = Some h) (merge_loop seen xs) = take 1 (filter (\<lambda>r. row_hash r = Some h) xs)"
proof (induction xs arbitrary: seen)
  case Nil
  then show ?case by simp
next
  case (Cons r rs)
  show ?case
  proof (cases "row_hash r")
    case None
    with Cons show ?thesis by simp
  next
    case (Some k)
    show ?thesis
    proof (cases "k = h")
      case True
      with Some Cons.prems show ?thesis by (simp add: merge_loop_seen)
    next
      case False
      with Some Cons show ?thesis by auto
    qed
  qed
qed

lemma hashes_merge_loop: "hashes (merge_loop seen xs) = hashes xs - seen"
  by (induction xs arbitrary: seen) (auto split: option.splits)

lemma distinct_merge_loop: "distinct (List.map_filter row_hash (merge_loop seen xs))"
proof (induction xs arbitrary: seen)
  case Nil
  then show ?case by simp
next
  case (Cons r rs)
  show ?case
  proof (cases "row_hash r")
    case None
    with Cons show ?thesis by simp
  next
    case (Some h)
    have "h \<notin> hashes (merge_loop (insert h seen) rs)"
      by (simp add: hashes_merge_loop)
    then have "h \<notin> set (List.map_filter row_hash (merge_loop (insert h seen) rs))"
      by (simp add: hashes_def)
    with Some Cons show ?thesis by simp
  qed
qed

lemma merge_loop_distinct_id:
  "distinct (List.map_filter row_hash xs) \<Longrightarrow> hashes xs \<inter> seen = {} \<Longrightarrow> merge_loop seen xs = xs"
proof (induction xs arbitrary: seen)
  case Nil
  then show ?case by simp
next
  case (Cons r rs)
  show ?case
  proof (cases "row_hash r")
    case None
    with Cons show ?thesis by simp
  next
    case (Some h)
    with Cons.prems have d: "distinct (List.map_filter row_hash rs)"
      and nin: "h \<notin> hashes rs" and ns: "h \<notin> seen" and dis: "hashes rs \<inter> seen = {}"
      by (auto simp: hashes_def)
    from nin dis have "hashes rs \<inter> insert h seen = {}" by blast
    from Cons.IH[OF d this] Some ns show ?thesis by simp
  qed
qed

lemma map_filter_append: "List.map_filter f (xs @ ys) = List.map_filter f xs @ List.map_filter f ys"
  by (simp add: List.map_filter_def)

lemma subseq_map_filter: "subseq xs ys \<Longrightarrow> subseq (List.map_filter f xs) (List.map_filter f ys)"
  by (simp add: List.map_filter_def subseq_map)

lemma distinct_map_filter_take:
  "distinct (List.map_filter f xs) \<Longrightarrow> distinct (List.map_filter f (take k xs))"
proof -
  assume d: "distinct (List.map_filter f xs)"
  have "List.map_filter f xs = List.map_filter f (take k xs) @ List.map_filter f (drop k xs)"
    by (simp add: map_filter_append[symmetric])
  with d show ?thesis by (metis distinct_append)
qed

lemma slice_to_take: "\<exists>k. slice_to xs n = take k xs"
  by (auto simp: slice_to_def)

lemma slice_to_all: "int (length xs) \<le> n \<Longrightarrow> slice_to xs n = xs"
  by (simp add: slice_to_def)

lemma length_slice_to: "0 \<le> n \<Longrightarrow> length (slice_to xs n) = min (length xs) (nat n)"
  by (simp add: slice_to_def)

lemma sorted_wrt_subseq: "subseq xs ys \<Longrightarrow> sorted_wrt P ys \<Longrightarrow> sorted_wrt P xs"
proof (induction rule: list_emb.induct)
  case (list_emb_Nil ys)
  then show ?case by simp
next
  case (list_emb_Cons xs ys y)
  then show ?case by simp
next
  case (list_emb_Cons2 x y xs ys)
  then have "set xs \<subseteq> set ys" by (auto dest: list_emb_set)
  with list_emb_Cons2 show ?case by auto
qed

lemma transform_mempool_item_tx:
  "transform_mempool_item b now r = Some t \<Longrightarrow>
   \<exists>tx. get_or (mp_Transaction r) empty_transaction = Some tx \<and>
        tx_hash t = safe_str (get (tx_Hash tx)) []"
  by (auto simp: transform_mempool_item_def split: Option.bind_splits)

lemma tx_hash_row_hash:
  assumes "transform_mempool_item b now r = Some t"
  shows "tx_hash t = (case row_hash r of None \<Rightarrow> [] | Some h \<Rightarrow> h)"
proof -
  from transform_mempool_item_tx[OF assms] obtain tx
    where tx: "get_or (mp_Transaction r) empty_transaction = Some tx"
      and h: "tx_hash t = safe_str (get (tx_Hash tx)) []"
    by blast
  from tx have "(case get (mp_Transaction r) of None \<Rightarrow> empty_transaction | Some x \<Rightarrow> x) = tx"
    by (cases "mp_Transaction r") (simp_all add: get_or_def get_def)
  then have "row_hash r = (case get (tx_Hash tx) of None \<Rightarrow> None | Some h \<Rightarrow> if h \<noteq> [] then Some h else None)"
    by (simp add: row_hash_def)
  with h show ?thesis
    by (cases "get (tx_Hash tx)") (simp_all add: safe_str_def)
qed

lemma row_hash_nonempty: "row_hash r = Some h \<Longrightarrow> h \<noteq> []"
  by (auto simp: row_hash_def split: option.splits if_splits)

lemma count_hash_le:
  assumes "h \<noteq> []"
  shows "length (filter (\<lambda>t. tx_hash t = h) (transform_mempool_trades b now rows))
         \<le> length (filter (\<lambda>r. row_hash r = Some h) rows)"
proof (induction rows)
  case Nil
  then show ?case by (simp add: transform_mempool_trades_def)
next
  case (Cons r rs)
  show ?case
  proof (cases "transform_mempool_item b now r")
    case None
    with Cons show ?thesis by (simp add: transform_mempool_trades_def)
  next
    case (Some t)
    from tx_hash_row_hash[OF Some] assms have "tx_hash t = h \<Longrightarrow> row_hash r = Some h"
      by (auto split: option.splits)
    with Some Cons show ?thesis by (auto simp: transform_mempool_trades_def)
  qed
qed

lemma count_hash_eq:
  assumes "h \<noteq> []" "list_all (\<lambda>r. transform_mempool_item b now r \<noteq> None) rows"
  shows "length (filter (\<lambda>t. tx_hash t = h) (transform_mempool_trades b now rows))
         = length (filter (\<lambda>r. row_hash r = Some h) rows)"
  using assms(2)
proof (induction rows)
  case Nil
  then show ?case by (simp add: transform_mempool_trades_def)
next
  case (Cons r rs)
  then obtain t where t: "transform_mempool_item b now r = Some t" by auto
  from tx_hash_row_hash[OF t] assms(1) have "(tx_hash t = h) = (row_hash r = Some h)"
    by (auto split: option.splits dest: row_hash_nonempty)
  with t Cons show ?case by (auto simp: transform_mempool_trades_def)
qed

lemma length_transform_all:
  "list_all (\<lambda>r. transform_mempool_item b now r \<noteq> None) rows \<Longrightarrow>
   length (transform_mempool_trades b now rows) = length rows"
  by (induction rows) (auto simp: transform_mempool_trades_def)

lemma list_all_subseq: "subseq xs ys \<Longrightarrow> list_all P ys \<Longrightarrow> list_all P xs"
  by (auto simp: list_all_iff dest: list_emb_set)


lemma hashes_iff: "h \<in> hashes rows \<longleftrightarrow> (\<exists>r \<in> set rows. row_hash r = Some h)"
  by (induction rows) (auto split: option.splits)

lemma fetch_mempool_value:
  assumes "a \<noteq> []" "b' \<noteq> []"
    and "post (mempool_request limit a b') = Inr (mempool_response ab)"
    and "post (mempool_request limit b' a) = Inr (mempool_response ba)"
  shows "fetch_mempool_trades post b now limit (Some a) (Some b') calls =
     (Inr (transform_mempool_trades b now (slice_to (merge_loop {} (ab @ ba)) limit)),
      calls @ [mempool_request limit a b', mempool_request limit b' a])"
  using assms
  by (simp add: fetch_mempool_trades_def Let_def execute_query_def mempool_request_def
      mempool_response_def rows_of_def get_or_def empty_gql_def empty_evm_def)

lemma merged_hash_count:
  "length (filter (\<lambda>r. row_hash r = Some h) (slice_to (merge_loop {} rows) limit)) \<le> 1"
proof -
  obtain k where k: "slice_to (merge_loop {} rows) limit = take k (merge_loop {} rows)"
    using slice_to_take by blast
  have "subseq (take k (merge_loop {} rows)) (merge_loop {} rows)"
    by (metis append_take_drop_id prefixI prefix_imp_subseq)
  then have "subseq (filter (\<lambda>r. row_hash r = Some h) (take k (merge_loop {} rows)))
                    (filter (\<lambda>r. row_hash r = Some h) (merge_loop {} rows))"
    by simp
  then have "length (filter (\<lambda>r. row_hash r = Some h) (take k (merge_loop {} rows)))
             \<le> length (filter (\<lambda>r. row_hash r = Some h) (merge_loop {} rows))"
    by (rule list_emb_length)
  also have "\<dots> = length (take 1 (filter (\<lambda>r. row_hash r = Some h) rows))"
    by (simp add: merge_loop_first)
  also have "\<dots> \<le> 1" by simp
  finally show ?thesis by (simp add: k)
qed

lemma subseq_take: "subseq (take k xs) xs"
  by (metis append_take_drop_id prefixI prefix_imp_subseq)

lemma subseq_transform:
  "subseq xs ys \<Longrightarrow> subseq (transform_mempool_trades b now xs) (transform_mempool_trades b now ys)"
  by (simp add: transform_mempool_trades_def subseq_map_filter)

lemmas mempool_defs = fetch_mempool_trades_def execute_query_def
  rows_of_def normalize_token_address_def strip_def isspace_def lower_def
  lower_cp_def slice_to_def empty_gql_def empty_evm_def example_provider_def
  mempool_response_def mempool_request_def USDC_def WETH_def row_hash_def
  transform_mempool_trades_def transform_mempool_item_def List.map_filter_def
  example_mempool_row_def example_builtins_def get_or_def get_def block_time_of_def
  trade_block_number_of_def truthy_scalar_def py_int_def py_float_def safe_float_def safe_str_def
  replace_Z_def success_of_def token_info_of_def empty_trade_def empty_fee_def empty_side_def
  empty_trade_dex_def empty_trade_currency_def empty_transaction_def str_def

text \<open>
  C3, as the code has it. With both addresses given and a provider that answers the two
  requests with the rows \<open>ab\<close> and \<open>ba\<close>: both orientations are requested, each with the
  limit \<open>max (limit div 2) 5\<close>; the result is parsed from the merge of \<open>ab @ ba\<close> cut at
  \<open>limit\<close>; the merge keeps the order, keeps every row without a hash, and keeps of the
  rows with a given hash exactly the first; so the result has at most one trade with a
  given hash. It has exactly one for every hash that occurs when every row parses and
  \<open>limit\<close> is at least the number of rows, and it has
  \<open>min (length ab + length ba) limit\<close> trades when every row parses, the hashes are
  pairwise distinct and \<open>limit\<close> is not negative.
\<close>

theorem mempool_merge_dedup:
  assumes "a \<noteq> []" "b' \<noteq> []"
    and "post (mempool_request limit a b') = Inr (mempool_response ab)"
    and "post (mempool_request limit b' a) = Inr (mempool_response ba)"
  shows
    "fetch_mempool_trades post b now limit (Some a) (Some b') calls =
       (Inr (transform_mempool_trades b now (slice_to (merge_loop {} (ab @ ba)) limit)),
        calls @ [mempool_request limit a b', mempool_request limit b' a]) \<and>
     req_limit (mempool_request limit a b') = max (limit div 2) 5 \<and>
     req_limit (mempool_request limit b' a) = max (limit div 2) 5 \<and>
     subseq (merge_loop {} (ab @ ba)) (ab @ ba) \<and>
     filter (\<lambda>r. row_hash r = None) (merge_loop {} (ab @ ba)) =
       filter (\<lambda>r. row_hash r = None) (ab @ ba) \<and>
     (\<forall>h. filter (\<lambda>r. row_hash r = Some h) (merge_loop {} (ab @ ba)) =
            take 1 (filter (\<lambda>r. row_hash r = Some h) (ab @ ba))) \<and>
     (\<forall>h. h \<noteq> [] \<longrightarrow>
        length (filter (\<lambda>t. tx_hash t = h)
          (transform_mempool_trades b now (slice_to (merge_loop {} (ab @ ba)) limit))) \<le> 1) \<and>
     (list_all (\<lambda>r. transform_mempool_item b now r \<noteq> None) (ab @ ba) \<and>
      int (length ab + length ba) \<le> limit \<longrightarrow>
        (\<forall>h \<in> hashes (ab @ ba).
           length (filter (\<lambda>t. tx_hash t = h)
             (transform_mempool_trades b now (slice_to (merge_loop {} (ab @ ba)) limit))) = 1)) \<and>
     (list_all (\<lambda>r. transform_mempool_item b now r \<noteq> None) (ab @ ba) \<and>
      distinct (List.map_filter row_hash (ab @ ba)) \<and> 0 \<le> limit \<longrightarrow>
        length (transform_mempool_trades b now (slice_to (merge_loop {} (ab @ ba)) limit)) =
          min (length ab + length ba) (nat limit))"
proof -
  let ?rows = "ab @ ba"
  let ?merged = "merge_loop {} ?rows"
  let ?out = "transform_mempool_trades b now (slice_to ?merged limit)"
  let ?ok = "list_all (\<lambda>r. transform_mempool_item b now r \<noteq> None)"
  have p1: "fetch_mempool_trades post b now limit (Some a) (Some b') calls =
       (Inr ?out, calls @ [mempool_request limit a b', mempool_request limit b' a])"
    using assms by (rule fetch_mempool_value)
  have p2: "req_limit (mempool_request limit a b') = max (limit div 2) 5"
    and p3: "req_limit (mempool_request limit b' a) = max (limit div 2) 5"
    by (simp_all add: mempool_request_def)
  have p4: "subseq ?merged ?rows" by (rule subseq_merge_loop)
  have p5: "filter (\<lambda>r. row_hash r = None) ?merged = filter (\<lambda>r. row_hash r = None) ?rows"
    by (rule merge_loop_keeps_unhashed)
  have p6: "filter (\<lambda>r. row_hash r = Some h) ?merged = take 1 (filter (\<lambda>r. row_hash r = Some h) ?rows)" for h
    by (simp add: merge_loop_first)
  have p7: "length (filter (\<lambda>t. tx_hash t = h) ?out) \<le> 1" if "h \<noteq> []" for h
    using count_hash_le[OF that, of b now "slice_to ?merged limit"] merged_hash_count[of h ?rows limit]
    by linarith
  have p8: "length (filter (\<lambda>t. tx_hash t = h) ?out) = 1"
    if ok: "?ok ?rows" and big: "int (length ab + length ba) \<le> limit" and h: "h \<in> hashes ?rows" for h
  proof -
    have "length ?merged \<le> length ?rows" using p4 by (rule list_emb_length)
    with big have sl: "slice_to ?merged limit = ?merged" by (intro slice_to_all) simp
    have okm: "?ok ?merged" using p4 ok by (rule list_all_subseq)
    from h obtain r where "r \<in> set ?rows" "row_hash r = Some h"
      unfolding hashes_iff by blast
    then have ne: "filter (\<lambda>r. row_hash r = Some h) ?rows \<noteq> []"
      by (auto simp: filter_empty_conv)
    from \<open>row_hash r = Some h\<close> have "h \<noteq> []" by (rule row_hash_nonempty)
    from count_hash_eq[OF this okm] have "length (filter (\<lambda>t. tx_hash t = h) ?out)
        = length (take 1 (filter (\<lambda>r. row_hash r = Some h) ?rows))"
      by (simp add: sl p6)
    also have "\<dots> = 1" using ne by (cases "filter (\<lambda>r. row_hash r = Some h) ?rows") simp_all
    finally show ?thesis .
  qed
  have p9: "length ?out = min (length ab + length ba) (nat limit)"
    if ok: "?ok ?rows" and d: "distinct (List.map_filter row_hash ?rows)" and l: "0 \<le> limit"
  proof -
    from d have m: "?merged = ?rows" by (intro merge_loop_distinct_id) simp_all
    obtain k where k: "slice_to ?rows limit = take k ?rows" using slice_to_take by blast
    have "subseq (take k ?rows) ?rows"
      by (metis append_take_drop_id prefixI prefix_imp_subseq)
    then have "?ok (slice_to ?rows limit)" using ok unfolding k by (rule list_all_subseq)
    then have "length ?out = length (slice_to ?rows limit)"
      unfolding m by (rule length_transform_all)
    with l show ?thesis by (simp add: length_slice_to)
  qed
  from p1 p2 p3 p4 p5 p6 p7 p8 p9 show ?thesis by blast
qed

text \<open>
  Two rows under (A, B) and three under (B, A), with the hash \<open>0xabc\<close> in both and a row
  without a hash in each: \<open>0xabc\<close> is emitted once, and both rows without a hash are.
\<close>

theorem mempool_merge_dedup_witness:
  "map_sum id (map tx_hash)
     (fst (fetch_mempool_trades
        (example_provider [] []
           [example_mempool_row (Val (str ''0xabc'')) (str ''2024-01-01T00:00:09Z'') (Val True),
            example_mempool_row Absent (str ''2024-01-01T00:00:05Z'') (Val True)]
           [example_mempool_row (Val (str ''0xdef'')) (str ''2024-01-01T00:00:09Z'') (Val True),
            example_mempool_row (Val (str ''0xabc'')) (str ''2024-01-01T00:00:09Z'') (Val True),
            example_mempool_row Null (str ''2024-01-01T00:00:05Z'') (Val True)]
           USDC WETH)
        example_builtins 0 20 (Some USDC) (Some WETH) []))
   = Inr [str ''0xabc'', [], str ''0xdef'', []]"
  using mempool_merge_dedup[of USDC WETH
        "example_provider [] []
           [example_mempool_row (Val (str ''0xabc'')) (str ''2024-01-01T00:00:09Z'') (Val True),
            example_mempool_row Absent (str ''2024-01-01T00:00:05Z'') (Val True)]
           [example_mempool_row (Val (str ''0xdef'')) (str ''2024-01-01T00:00:09Z'') (Val True),
            example_mempool_row (Val (str ''0xabc'')) (str ''2024-01-01T00:00:09Z'') (Val True),
            example_mempool_row Null (str ''2024-01-01T00:00:05Z'') (Val True)]
           USDC WETH"
        20
        "[example_mempool_row (Val (str ''0xabc'')) (str ''2024-01-01T00:00:09Z'') (Val True),
            example_mempool_row Absent (str ''2024-01-01T00:00:05Z'') (Val True)]"
        "[example_mempool_row (Val (str ''0xdef'')) (str ''2024-01-01T00:00:09Z'') (Val True),
            example_mempool_row (Val (str ''0xabc'')) (str ''2024-01-01T00:00:09Z'') (Val True),
            example_mempool_row Null (str ''2024-01-01T00:00:05Z'') (Val True)]"
        example_builtins 0 "[]"]
  by (simp add: mempool_defs Let_def)

text \<open>
  C3 as stated fails when the limit cuts the merged list before the first row of a hash:
  with \<open>limit = 1\<close> each query asks for 5 rows, both batches contain \<open>0xabc\<close>, and the
  result has no trade with that hash.
\<close>

theorem mempool_merge_truncation_counterexample:
  "map_sum id (map tx_hash)
     (fst (fetch_mempool_trades
        (example_provider [] []
           [example_mempool_row (Val (str ''0x111'')) (str ''2024-01-01T00:00:09Z'') (Val True),
            example_mempool_row (Val (str ''0xabc'')) (str ''2024-01-01T00:00:05Z'') (Val True)]
           [example_mempool_row (Val (str ''0xabc'')) (str ''2024-01-01T00:00:05Z'') (Val True)]
           USDC WETH)
        example_builtins 0 1 (Some USDC) (Some WETH) []))
   = Inr [str ''0x111'']"
  by (simp add: mempool_defs Let_def)

text \<open>
  C7, as the code has it. The result is not sorted again: it consists of trades of the
  (A, B) batch followed by trades of the (B, A) batch, each part in the order of the
  provider's answer, so each part is in descending order of block time when the batch it
  comes from is.
\<close>

theorem mempool_order_within_batches:
  assumes "a \<noteq> []" "b' \<noteq> []"
    and "post (mempool_request limit a b') = Inr (mempool_response ab)"
    and "post (mempool_request limit b' a) = Inr (mempool_response ba)"
  shows "\<exists>ys zs.
     fst (fetch_mempool_trades post b now limit (Some a) (Some b') calls) = Inr (ys @ zs) \<and>
     subseq ys (transform_mempool_trades b now ab) \<and>
     subseq zs (transform_mempool_trades b now ba) \<and>
     (newest_first (transform_mempool_trades b now ab) \<longrightarrow> newest_first ys) \<and>
     (newest_first (transform_mempool_trades b now ba) \<longrightarrow> newest_first zs)"
proof -
  let ?X = "merge_loop {} ab" and ?Y = "merge_loop ({} \<union> hashes ab) ba"
  have m: "merge_loop {} (ab @ ba) = ?X @ ?Y" by (rule merge_loop_append)
  obtain k where k: "slice_to (?X @ ?Y) limit = take k (?X @ ?Y)"
    using slice_to_take by blast
  let ?ys = "transform_mempool_trades b now (take k ?X)"
  let ?zs = "transform_mempool_trades b now (take (k - length ?X) ?Y)"
  have "slice_to (merge_loop {} (ab @ ba)) limit = take k ?X @ take (k - length ?X) ?Y"
    unfolding m k by (rule take_append)
  then have "transform_mempool_trades b now (slice_to (merge_loop {} (ab @ ba)) limit) = ?ys @ ?zs"
    by (simp only: transform_mempool_trades_def map_filter_append)
  then have out: "fst (fetch_mempool_trades post b now limit (Some a) (Some b') calls) = Inr (?ys @ ?zs)"
    by (simp add: fetch_mempool_value[OF assms])
  have "subseq (take k ?X) ab"
    using subseq_take subseq_merge_loop by (rule subseq_order.order_trans)
  then have ys: "subseq ?ys (transform_mempool_trades b now ab)" by (rule subseq_transform)
  have "subseq (take (k - length ?X) ?Y) ba"
    using subseq_take subseq_merge_loop by (rule subseq_order.order_trans)
  then have zs: "subseq ?zs (transform_mempool_trades b now ba)" by (rule subseq_transform)
  have sy: "newest_first (transform_mempool_trades b now ab) \<longrightarrow> newest_first ?ys"
    unfolding newest_first_def using ys by (auto intro: sorted_wrt_subseq)
  have sz: "newest_first (transform_mempool_trades b now ba) \<longrightarrow> newest_first ?zs"
    unfolding newest_first_def using zs by (auto intro: sorted_wrt_subseq)
  from out ys zs sy sz show ?thesis by blast
qed

text \<open>
  Two batches in descending order, with the times (9, 5) and (9, 9): the result has the
  times (9, 5, 9).
\<close>

theorem mempool_order_within_batches_witness:
  "map_sum id (map trade_block_time)
     (fst (fetch_mempool_trades
        (example_provider [] []
           [example_mempool_row (Val (str ''0xabc'')) (str ''2024-01-01T00:00:09Z'') (Val True),
            example_mempool_row (Val (str ''0x111'')) (str ''2024-01-01T00:00:05Z'') (Val True)]
           [example_mempool_row (Val (str ''0xdef'')) (str ''2024-01-01T00:00:09Z'') (Val True),
            example_mempool_row (Val (str ''0xabc'')) (str ''2024-01-01T00:00:09Z'') (Val True)]
           USDC WETH)
        example_builtins 0 20 (Some USDC) (Some WETH) []))
   = Inr [9, 5, 9]"
  using mempool_order_within_batches[of USDC WETH
        "example_provider [] []
           [example_mempool_row (Val (str ''0xabc'')) (str ''2024-01-01T00:00:09Z'') (Val True),
            example_mempool_row (Val (str ''0x111'')) (str ''2024-01-01T00:00:05Z'') (Val True)]
           [example_mempool_row (Val (str ''0xdef'')) (str ''2024-01-01T00:00:09Z'') (Val True),
            example_mempool_row (Val (str ''0xabc'')) (str ''2024-01-01T00:00:09Z'') (Val True)]
           USDC WETH"
        20
        "[example_mempool_row (Val (str ''0xabc'')) (str ''2024-01-01T00:00:09Z'') (Val True),
            example_mempool_row (Val (str ''0x111'')) (str ''2024-01-01T00:00:05Z'') (Val True)]"
        "[example_mempool_row (Val (str ''0xdef'')) (str ''2024-01-01T00:00:09Z'') (Val True),
            example_mempool_row (Val (str ''0xabc'')) (str ''2024-01-01T00:00:09Z'') (Val True)]"
        example_builtins 0 "[]"]
  by (simp add: mempool_defs Let_def)

text \<open>
  C7 as stated fails: a trade at time 5 under (A, B) and one at time 9 under (B, A) are
  returned in this order, which is not descending.
\<close>

theorem mempool_not_descending_counterexample:
  "(case fst (fetch_mempool_trades
        (example_provider [] []
           [example_mempool_row (Val (str ''0x111'')) (str ''2024-01-01T00:00:05Z'') (Val True)]
           [example_mempool_row (Val (str ''0xabc'')) (str ''2024-01-01T00:00:09Z'') (Val True)]
           USDC WETH)
        example_builtins 0 20 (Some USDC) (Some WETH) []) of
      Inl e \<Rightarrow> False
    | Inr trades \<Rightarrow> map trade_block_time trades = [5, 9] \<and> \<not> newest_first trades)"
  by (simp add: mempool_defs Let_def newest_first_def)

section \<open>The direction correction for a request by address\<close>

lemmas slippage_parse_defs = transform_slippage_item_def key_or_def empty_block_def
  empty_direction_def empty_pool_currency_def empty_pool_def empty_dex_def empty_price_def
  example_fallback_row_def TOKEN_A_def TOKEN_B_def api_item_of_def is_pool_reversed_def
  py_int_def block_time_of_def replace_Z_def example_builtins_def get_def get_or_def
  List.map_filter_def transform_mempool_trades_def slippage_request_def str_def

lemma address_request_not_reversed:
  "\<not> is_pool_reversed (str ''BBB'') (str ''AAA'') (Some TOKEN_A) (Some TOKEN_B)"
  by (simp add: is_pool_reversed_def truthy_str_def TOKEN_A_def TOKEN_B_def str_def)

text \<open>
  C1. The scenario of the claim, as a call of \<open>/api/data\<close>: the request names the tokens
  by the addresses A and B, the provider has no rows for (A, B) and one row for (B, A)
  with tier 25, B to A price 1800.5 and B to A maximal input 50000. The claim says that
  the single item has the price 1800.5 and the maximal amount 50000. The reversal test
  compares the symbols of the pool's tokens with the request strings, which are addresses
  here, so the point is not taken as reversed: both requests are sent, the row is stored
  with its B to A fields, and the item carries the A to B fields, price 0 and maximal
  amount 0.
\<close>

theorem slippage_direction_lost_for_address_request:
  "(case get_all_data (example_provider [] [example_fallback_row] [] [] TOKEN_A TOKEN_B)
           example_builtins (Some TOKEN_A) (Some TOKEN_B) (init_service 100) of
      (Inl e, service1) \<Rightarrow> False
    | (Inr d, service1) \<Rightarrow>
        map bps (data_slippage d) = [25] \<and>
        map price (data_slippage d) = [0] \<and>
        map max_amount (data_slippage d) = [0] \<and>
        map item_price_btoa (data_slippage d) = [1800.5] \<and>
        map item_token_a (data_slippage d) = [Some (str ''BBB'')] \<and>
        map item_token_b (data_slippage d) = [Some (str ''AAA'')] \<and>
        map price_btoa (slippage_data service1) = [1800.5] \<and>
        map max_amount_in_btoa (slippage_data service1) = [50000] \<and>
        take 2 (provider_calls service1) =
          [slippage_request 50 TOKEN_A TOKEN_B, slippage_request 50 TOKEN_B TOKEN_A])"
  by (simp add: service_defs slippage_parse_defs Let_def)

end
